theory Spec2Isabelle
  imports Main
begin

section \<open>URL construction\<close>

text \<open>
  A Go \<^verbatim>\<open>map[string]string\<close> is modelled by the sequence of entries that a
  \<^verbatim>\<open>range\<close> loop over it yields: \<open>None\<close> is the nil map, \<open>Some kvs\<close> a non-nil map
  whose entries are visited in the order \<open>kvs\<close>. Go leaves that order unspecified, so
  the theorems below quantify over every order. Go strings are byte sequences and are
  modelled as \<open>string\<close>.
\<close>

type_synonym go_map = "(string \<times> string) list option"

definition entries :: "go_map \<Rightarrow> (string \<times> string) list" where
  "entries m = (case m of None \<Rightarrow> [] | Some kvs \<Rightarrow> kvs)"

definition len_map :: "go_map \<Rightarrow> nat" where
  "len_map m = length (entries m)"

text \<open>
  The loop \<^verbatim>\<open>for k, v := range queryParams\<close> of \<open>MakeupUrlByHostPathQueryParams\<close>,
  with the contents of the string builder passed along.
\<close>

fun range_queryParams :: "(string \<times> string) list \<Rightarrow> string \<Rightarrow> string" where
  "range_queryParams [] urlBuild = urlBuild"
| "range_queryParams ((k, v) # kvs) urlBuild =
     range_queryParams kvs (urlBuild @ k @ ''='' @ v @ ''&'')"

definition MakeupUrlByHostPathQueryParams :: "string \<Rightarrow> string \<Rightarrow> go_map \<Rightarrow> string" where
  "MakeupUrlByHostPathQueryParams host path queryParams =
     (if len_map queryParams = 0 then host @ path
      else let url = range_queryParams (entries queryParams) (host @ path @ ''?'')
           in take (length url - 1) url)"

text \<open>
  The specification's reading of the query string: the pairs \<open>k=v\<close>, joined by
  \<open>&\<close> with a separator only between two neighbours.
\<close>

fun join_amp :: "string list \<Rightarrow> string" where
  "join_amp [] = []"
| "join_amp [p] = p"
| "join_amp (p # q # ps) = p @ ''&'' @ join_amp (q # ps)"

definition kv_pair :: "string \<times> string \<Rightarrow> string" where
  "kv_pair kv = fst kv @ ''='' @ snd kv"


section \<open>Spans, span contexts and the tracer interface\<close>

text \<open>
  A Go interface value that may be nil is an \<open>option\<close>: \<open>None\<close> is nil. A non-nil
  \<^verbatim>\<open>error\<close> is represented by its message.

  The package implements \<^verbatim>\<open>opentracing.Span\<close> and \<^verbatim>\<open>opentracing.SpanContext\<close>
  itself only by \<^verbatim>\<open>noopSpan\<close> and \<^verbatim>\<open>noopSpanContext\<close>. Every other span or span
  context comes from a tracer of another package (Jaeger's, in
  \<^verbatim>\<open>newTracerInConstSampleWithBeegoLogByDR\<close>); it is an opaque handle here, a
  number, and a span carries the context its \<^verbatim>\<open>Context()\<close> returns.
\<close>

type_synonym error = string
type_synonym bytes = string

datatype span_context = NoopSpanContext | ExtSpanContext nat

datatype span = NoopSpan | ExtSpan nat span_context

definition defaultNoopSpanContext :: span_context where
  "defaultNoopSpanContext = NoopSpanContext"

definition defaultNoopSpan :: span where
  "defaultNoopSpan = NoopSpan"

text \<open>\<^verbatim>\<open>opentracing.ChildOf\<close> and \<^verbatim>\<open>opentracing.FollowsFrom\<close>, the start options in use.\<close>

datatype start_opt = ChildOf span_context | FollowsFrom span_context

datatype ref_type = ChildOfRef | FollowsFromRef

text \<open>The format argument of Inject and Extract.\<close>

datatype codec = HTTPHeaders | fasthttpHeadersCodecFormat

datatype log_field = LogInt string int | LogString string string

text \<open>
  \<^verbatim>\<open>http.Header\<close> maps a key to a list of values. A \<^verbatim>\<open>fasthttp.ResponseHeader\<close> is
  represented by the key/value pairs that its \<^verbatim>\<open>VisitAll\<close> enumerates, in that order.
\<close>

type_synonym http_Header = "(string \<times> string list) list"
type_synonym fasthttp_ResponseHeader = "(string \<times> string) list"

record fasthttp_RequestHeader =
  rh_method :: string
  rh_fields :: "(string \<times> string) list"
  rh_cookies :: "(string \<times> string) list"

record fasthttp_Request =
  req_Header :: fasthttp_RequestHeader
  req_uri :: string
  req_body :: bytes

record fasthttp_Response =
  resp_Header :: fasthttp_ResponseHeader
  resp_body :: bytes

datatype carrier =
    HTTPHeadersCarrier http_Header
  | fasthttpRespHeaderCarrier fasthttp_ResponseHeader

text \<open>
  What the code does to objects it does not own is recorded as a sequence of events:
  calls into a tracer of another package and into its spans, the pooled request and
  response objects of fasthttp, the network send, and the calls that reach the
  \<^verbatim>\<open>http.ResponseWriter\<close> of the server.
\<close>

datatype event =
    EvStartSpan string "start_opt list"
  | EvInject span_context codec
  | EvExtract codec
  | EvLogFields span "log_field list"
  | EvFinish span
  | EvAcquireRequest
  | EvReleaseRequest
  | EvAcquireResponse
  | EvReleaseResponse
  | EvDoTimeout fasthttp_Request
  | EvWriteHeader int
  | EvWrite bytes

text \<open>
  The state: the events so far, the \<^verbatim>\<open>statusCode\<close> field of every
  \<^verbatim>\<open>statusCodeTracker\<close> allocated so far, by address, and whether the response
  writer of the server has written its header.
\<close>

record world =
  events :: "event list"
  sct_statusCode :: "nat \<Rightarrow> int"
  sct_next :: nat
  srv_wroteHeader :: bool

definition emit :: "event \<Rightarrow> world \<Rightarrow> world" where
  "emit e w = w\<lparr>events := events w @ [e]\<rparr>"

text \<open>
  A tracer of another package is known by what its methods return; the answers may
  depend on everything that happened before. \<open>ext_StartSpan\<close> gives the handle and
  the context of the started span, or nil: \<^verbatim>\<open>noopSpan\<close> is unexported, so the span is
  not one of those. \<open>ext_Inject\<close> gives the fields the propagator writes with the
  carrier's \<^verbatim>\<open>Set\<close>, and the error.
\<close>

record ext_tracer =
  ext_StartSpan :: "string \<Rightarrow> start_opt list \<Rightarrow> event list \<Rightarrow> (nat \<times> span_context) option"
  ext_Inject :: "span_context \<Rightarrow> codec \<Rightarrow> event list \<Rightarrow> (string \<times> string) list \<times> error option"
  ext_Extract :: "codec \<Rightarrow> carrier \<Rightarrow> event list \<Rightarrow> span_context option \<times> error option"

datatype tracer = noopTracer | ExtTracer ext_tracer

definition defaultNoopTracer :: tracer where
  "defaultNoopTracer = noopTracer"

text \<open>
  \<^verbatim>\<open>RequestHeader.Set\<close> of fasthttp normalizes the key (the first letter and every
  letter after a hyphen in upper case, the other letters in lower case; ASCII only),
  then replaces the value of a present key, else appends. The well-known headers, which
  fasthttp keeps in fields of their own, are not told apart from the others here.
  \<^verbatim>\<open>SetCookie\<close> takes the key as it is.
\<close>

definition toUpper :: "char \<Rightarrow> char" where
  "toUpper c = (if 97 \<le> (of_char c :: nat) \<and> (of_char c :: nat) \<le> 122
                then char_of ((of_char c :: nat) - 32) else c)"

definition toLower :: "char \<Rightarrow> char" where
  "toLower c = (if 65 \<le> (of_char c :: nat) \<and> (of_char c :: nat) \<le> 90
                then char_of ((of_char c :: nat) + 32) else c)"

fun normalize_rest :: "string \<Rightarrow> string" where
  "normalize_rest [] = []"
| "normalize_rest [c] = (if c = CHR ''-'' then [c] else [toLower c])"
| "normalize_rest (c # d # ds) =
     (if c = CHR ''-'' then c # toUpper d # normalize_rest ds
      else toLower c # normalize_rest (d # ds))"

fun normalizeHeaderKey :: "string \<Rightarrow> string" where
  "normalizeHeaderKey [] = []"
| "normalizeHeaderKey (c # cs) = toUpper c # normalize_rest cs"

fun setArg :: "(string \<times> string) list \<Rightarrow> string \<Rightarrow> string \<Rightarrow> (string \<times> string) list" where
  "setArg [] key val = [(key, val)]"
| "setArg ((k, v) # h) key val = (if k = key then (key, val) # h else (k, v) # setArg h key val)"

definition RequestHeader_Set :: "string \<Rightarrow> string \<Rightarrow> fasthttp_RequestHeader \<Rightarrow> fasthttp_RequestHeader" where
  "RequestHeader_Set key val h = h\<lparr>rh_fields := setArg (rh_fields h) (normalizeHeaderKey key) val\<rparr>"

definition RequestHeader_SetCookie :: "string \<Rightarrow> string \<Rightarrow> fasthttp_RequestHeader \<Rightarrow> fasthttp_RequestHeader" where
  "RequestHeader_SetCookie key val h = h\<lparr>rh_cookies := setArg (rh_cookies h) key val\<rparr>"

definition RequestHeader_SetMethod :: "string \<Rightarrow> fasthttp_RequestHeader \<Rightarrow> fasthttp_RequestHeader" where
  "RequestHeader_SetMethod m h = h\<lparr>rh_method := m\<rparr>"

text \<open>The methods of the \<^verbatim>\<open>opentracing.Tracer\<close> interface, dispatched on the implementation.\<close>

fun Tracer_StartSpan :: "tracer \<Rightarrow> string \<Rightarrow> start_opt list \<Rightarrow> world \<Rightarrow> span option \<times> world" where
  "Tracer_StartSpan noopTracer operationName opts w = (Some defaultNoopSpan, w)"
| "Tracer_StartSpan (ExtTracer x) operationName opts w =
     (map_option (\<lambda>sp. ExtSpan (fst sp) (snd sp)) (ext_StartSpan x operationName opts (events w)),
      emit (EvStartSpan operationName opts) w)"

fun Tracer_Inject ::
  "tracer \<Rightarrow> span_context \<Rightarrow> codec \<Rightarrow> fasthttp_RequestHeader \<Rightarrow> world
    \<Rightarrow> (fasthttp_RequestHeader \<times> error option) \<times> world" where
  "Tracer_Inject noopTracer sp format header w = ((header, None), w)"
| "Tracer_Inject (ExtTracer x) sp format header w =
     (case ext_Inject x sp format (events w) of
        (writes, err) \<Rightarrow>
          ((fold (\<lambda>kv. RequestHeader_Set (fst kv) (snd kv)) writes header, err),
           emit (EvInject sp format) w))"

fun Tracer_Extract ::
  "tracer \<Rightarrow> codec \<Rightarrow> carrier \<Rightarrow> world \<Rightarrow> (span_context option \<times> error option) \<times> world" where
  "Tracer_Extract noopTracer format c w = ((Some defaultNoopSpanContext, None), w)"
| "Tracer_Extract (ExtTracer x) format c w =
     (ext_Extract x format c (events w), emit (EvExtract format) w)"

text \<open>The methods of \<^verbatim>\<open>opentracing.Span\<close> in use; those of \<^verbatim>\<open>noopSpan\<close> do nothing.\<close>

fun Span_Context :: "span \<Rightarrow> span_context" where
  "Span_Context NoopSpan = defaultNoopSpanContext"
| "Span_Context (ExtSpan i sc) = sc"

fun Span_LogFields :: "span \<Rightarrow> log_field list \<Rightarrow> world \<Rightarrow> world" where
  "Span_LogFields NoopSpan fs w = w"
| "Span_LogFields (ExtSpan i sc) fs w = emit (EvLogFields (ExtSpan i sc) fs) w"

fun Span_Finish :: "span \<Rightarrow> world \<Rightarrow> world" where
  "Span_Finish NoopSpan w = w"
| "Span_Finish (ExtSpan i sc) w = emit (EvFinish (ExtSpan i sc)) w"


section \<open>The request-scoped context\<close>

text \<open>
  A \<^verbatim>\<open>context.Context\<close> is the chain of \<^verbatim>\<open>context.WithValue\<close> nodes above a
  background context; a nil context is \<open>None\<close>. The key \<^verbatim>\<open>activeSpanKey\<close> has an
  unexported type, so under it there is only what this package stores: a span or a
  span context.
\<close>

datatype ctx_key = activeSpanKey | UserKey string

datatype ctx_val = SpanVal span | SpanCtxVal span_context | OtherVal string

datatype go_context = Background | WithValue go_context ctx_key ctx_val

fun ctx_Value :: "go_context \<Rightarrow> ctx_key \<Rightarrow> ctx_val option" where
  "ctx_Value Background key = None"
| "ctx_Value (WithValue parent k v) key = (if key = k then Some v else ctx_Value parent key)"


section \<open>The tracer implementation (tracerImpl)\<close>

text \<open>
  A \<^verbatim>\<open>*tracerImpl\<close> is either the package variable \<^verbatim>\<open>noopTracerImpl\<close> or a struct
  allocated elsewhere (by \<^verbatim>\<open>NewTracerBySrvNameAndTracerSrvHost\<close>), which is never the
  same pointer. The \<^verbatim>\<open>closer\<close> field plays no part here and is left out.
\<close>

datatype tracerImpl = PackageNoopImpl | AllocatedImpl tracer

definition noopTracerImpl :: tracerImpl where
  "noopTracerImpl = PackageNoopImpl"

fun tracer_of :: "tracerImpl \<Rightarrow> tracer" where
  "tracer_of PackageNoopImpl = defaultNoopTracer"
| "tracer_of (AllocatedImpl t) = t"

definition InitEmptyTracer :: tracerImpl where
  "InitEmptyTracer = noopTracerImpl"

definition StartSpan :: "tracerImpl \<Rightarrow> string \<Rightarrow> world \<Rightarrow> span option \<times> world" where
  "StartSpan ti opName w = Tracer_StartSpan (tracer_of ti) opName [] w"

definition spanInfoFromContext ::
  "tracerImpl \<Rightarrow> go_context option \<Rightarrow> span option \<times> span_context option" where
  "spanInfoFromContext ti ctx =
     (case ctx of
        None \<Rightarrow> (None, None)
      | Some c \<Rightarrow>
          (case ctx_Value c activeSpanKey of
             Some (SpanVal v) \<Rightarrow> (Some v, None)
           | Some (SpanCtxVal v) \<Rightarrow> (None, Some v)
           | _ \<Rightarrow> (None, None)))"

definition ChildSpanFromParent ::
  "tracerImpl \<Rightarrow> string \<Rightarrow> span option \<Rightarrow> world \<Rightarrow> span option \<times> world" where
  "ChildSpanFromParent ti opName parent w =
     (case parent of
        None \<Rightarrow> StartSpan ti opName w
      | Some p \<Rightarrow> Tracer_StartSpan (tracer_of ti) opName [ChildOf (Span_Context p)] w)"

definition FollowerSpanFromParent ::
  "tracerImpl \<Rightarrow> string \<Rightarrow> span option \<Rightarrow> world \<Rightarrow> span option \<times> world" where
  "FollowerSpanFromParent ti opName parent w =
     (case parent of
        None \<Rightarrow> StartSpan ti opName w
      | Some p \<Rightarrow> Tracer_StartSpan (tracer_of ti) opName [FollowsFrom (Span_Context p)] w)"

definition ChildSpanFromContext ::
  "tracerImpl \<Rightarrow> string \<Rightarrow> go_context option \<Rightarrow> world \<Rightarrow> span option \<times> world" where
  "ChildSpanFromContext ti opName ctx w =
     (case spanInfoFromContext ti ctx of
        (Some span, spanCtx) \<Rightarrow> ChildSpanFromParent ti opName (Some span) w
      | (None, Some spanCtx) \<Rightarrow> Tracer_StartSpan (tracer_of ti) opName [ChildOf spanCtx] w
      | (None, None) \<Rightarrow> StartSpan ti opName w)"

definition FollowerSpanFromContext ::
  "tracerImpl \<Rightarrow> string \<Rightarrow> go_context option \<Rightarrow> world \<Rightarrow> span option \<times> world" where
  "FollowerSpanFromContext ti opName ctx w =
     (case spanInfoFromContext ti ctx of
        (Some span, spanCtx) \<Rightarrow> FollowerSpanFromParent ti opName (Some span) w
      | (None, Some spanCtx) \<Rightarrow> Tracer_StartSpan (tracer_of ti) opName [FollowsFrom spanCtx] w
      | (None, None) \<Rightarrow> StartSpan ti opName w)"

definition extractFromHttpHeader ::
  "tracerImpl \<Rightarrow> http_Header \<Rightarrow> world \<Rightarrow> (span_context option \<times> error option) \<times> world" where
  "extractFromHttpHeader ti header w =
     Tracer_Extract (tracer_of ti) HTTPHeaders (HTTPHeadersCarrier header) w"

definition extractFromFasthttpHeader ::
  "tracerImpl \<Rightarrow> fasthttp_ResponseHeader \<Rightarrow> world
    \<Rightarrow> (span_context option \<times> error option) \<times> world" where
  "extractFromFasthttpHeader ti header w =
     Tracer_Extract (tracer_of ti) fasthttpHeadersCodecFormat (fasthttpRespHeaderCarrier header) w"

definition getSpanFromHttpHeader ::
  "tracerImpl \<Rightarrow> string \<Rightarrow> http_Header \<Rightarrow> ref_type \<Rightarrow> world \<Rightarrow> span option \<times> world" where
  "getSpanFromHttpHeader ti opName header refType w =
     (case extractFromHttpHeader ti header w of
        ((None, err), w1) \<Rightarrow> Tracer_StartSpan (tracer_of ti) opName [] w1
      | ((Some spanCtx, err), w1) \<Rightarrow>
          (if refType = ChildOfRef
           then Tracer_StartSpan (tracer_of ti) opName [ChildOf spanCtx] w1
           else Tracer_StartSpan (tracer_of ti) opName [FollowsFrom spanCtx] w1))"

definition ChildSpanFromHttpHeader ::
  "tracerImpl \<Rightarrow> string \<Rightarrow> http_Header \<Rightarrow> world \<Rightarrow> span option \<times> world" where
  "ChildSpanFromHttpHeader ti opName header w =
     getSpanFromHttpHeader ti opName header ChildOfRef w"

definition ContextWithSpan ::
  "tracerImpl \<Rightarrow> go_context option \<Rightarrow> span option \<Rightarrow> go_context option" where
  "ContextWithSpan ti ctx span =
     (case (ctx, span) of
        (Some c, Some s) \<Rightarrow> Some (WithValue c activeSpanKey (SpanVal s))
      | _ \<Rightarrow> ctx)"

definition CtxWithSpanCtxFromHttpHeader ::
  "tracerImpl \<Rightarrow> go_context option \<Rightarrow> http_Header \<Rightarrow> world \<Rightarrow> go_context option \<times> world" where
  "CtxWithSpanCtxFromHttpHeader ti ctx header w =
     (case ctx of
        None \<Rightarrow> (None, w)
      | Some c \<Rightarrow>
          (case extractFromHttpHeader ti header w of
             ((None, err), w1) \<Rightarrow> (Some c, w1)
           | ((Some spanCtx, err), w1) \<Rightarrow>
               (Some (WithValue c activeSpanKey (SpanCtxVal spanCtx)), w1)))"

definition CtxWithSpanCtxFromFasthttpHeader ::
  "tracerImpl \<Rightarrow> go_context option \<Rightarrow> fasthttp_ResponseHeader \<Rightarrow> world
    \<Rightarrow> go_context option \<times> world" where
  "CtxWithSpanCtxFromFasthttpHeader ti ctx header w =
     (case ctx of
        None \<Rightarrow> (None, w)
      | Some c \<Rightarrow>
          (case extractFromFasthttpHeader ti header w of
             ((None, err), w1) \<Rightarrow> (Some c, w1)
           | ((Some spanCtx, err), w1) \<Rightarrow>
               (Some (WithValue c activeSpanKey (SpanCtxVal spanCtx)), w1)))"

definition injectSpanCtx2FasthttpHeader ::
  "tracerImpl \<Rightarrow> span_context \<Rightarrow> fasthttp_RequestHeader \<Rightarrow> world
    \<Rightarrow> (fasthttp_RequestHeader \<times> error option) \<times> world" where
  "injectSpanCtx2FasthttpHeader ti spanCtx header w =
     Tracer_Inject (tracer_of ti) spanCtx fasthttpHeadersCodecFormat header w"

definition Inject2FasthttpHeader ::
  "tracerImpl \<Rightarrow> span option \<Rightarrow> fasthttp_RequestHeader \<Rightarrow> world
    \<Rightarrow> (fasthttp_RequestHeader \<times> error option) \<times> world" where
  "Inject2FasthttpHeader ti span header w =
     (case span of
        None \<Rightarrow> ((header, None), w)
      | Some s \<Rightarrow> injectSpanCtx2FasthttpHeader ti (Span_Context s) header w)"



section \<open>The outbound request pipeline\<close>

text \<open>
  A value of type \<^verbatim>\<open>interface{}\<close> handed over as JSON data; nil is \<open>None\<close>. What the
  serializer makes of it is the serializer's business.
\<close>

datatype go_value = GoString string | GoInt int | GoChan

text \<open>
  The collaborators of the pipeline outside the package: the \<^verbatim>\<open>Marshal\<close> of the
  package variable \<^verbatim>\<open>jsonSerializer\<close>, and \<^verbatim>\<open>DoTimeout\<close> of the fasthttp client,
  which fills the response or reports an error.
\<close>

record env =
  jsonSerializer_Marshal :: "go_value \<Rightarrow> bytes \<times> error option"
  Client_DoTimeout :: "fasthttp_Request \<Rightarrow> event list \<Rightarrow> fasthttp_Response \<times> error option"

datatype panic = NilDereference | NilContext | InvalidWriteHeaderCode int

type_synonym FasthttpRespCallback =
  "go_context option \<Rightarrow> fasthttp_Response \<Rightarrow> world \<Rightarrow> fasthttp_Response \<times> world"

definition empty_RequestHeader :: fasthttp_RequestHeader where
  "empty_RequestHeader = \<lparr>rh_method = [], rh_fields = [], rh_cookies = []\<rparr>"

definition AcquireRequest :: "world \<Rightarrow> fasthttp_Request \<times> world" where
  "AcquireRequest w =
     (\<lparr>req_Header = empty_RequestHeader, req_uri = [], req_body = []\<rparr>, emit EvAcquireRequest w)"

definition ReleaseRequest :: "world \<Rightarrow> world" where
  "ReleaseRequest w = emit EvReleaseRequest w"

definition AcquireResponse :: "world \<Rightarrow> world" where
  "AcquireResponse w = emit EvAcquireResponse w"

definition ReleaseResponse :: "world \<Rightarrow> world" where
  "ReleaseResponse w = emit EvReleaseResponse w"

definition setFasthttpReqCookiesByMap :: "fasthttp_Request \<Rightarrow> go_map \<Rightarrow> fasthttp_Request" where
  "setFasthttpReqCookiesByMap req mapCookie =
     fold (\<lambda>kv r. r\<lparr>req_Header := RequestHeader_SetCookie (fst kv) (snd kv) (req_Header r)\<rparr>)
       (entries mapCookie) req"

definition setFasthttpReqHeaderByMap :: "fasthttp_Request \<Rightarrow> go_map \<Rightarrow> fasthttp_Request" where
  "setFasthttpReqHeaderByMap req mapHeader =
     fold (\<lambda>kv r. r\<lparr>req_Header := RequestHeader_Set (fst kv) (snd kv) (req_Header r)\<rparr>)
       (entries mapHeader) req"

definition setFasthttpReqBodyByJsonData ::
  "env \<Rightarrow> fasthttp_Request \<Rightarrow> go_value \<Rightarrow> fasthttp_Request \<times> error option" where
  "setFasthttpReqBodyByJsonData e req d =
     (case jsonSerializer_Marshal e d of
        (body, Some err) \<Rightarrow> (req, Some err)
      | (body, None) \<Rightarrow> (req\<lparr>req_body := body\<rparr>, None))"

definition sendFasthttpReqWithTimeOut ::
  "env \<Rightarrow> fasthttp_Request \<Rightarrow> world \<Rightarrow> (fasthttp_Response \<times> error option) \<times> world" where
  "sendFasthttpReqWithTimeOut e req w =
     (Client_DoTimeout e req (events w), emit (EvDoTimeout req) w)"

fun applyFasthttpRespCallback ::
  "go_context option \<Rightarrow> fasthttp_Response \<Rightarrow> FasthttpRespCallback list \<Rightarrow> world
    \<Rightarrow> fasthttp_Response \<times> world" where
  "applyFasthttpRespCallback ctx resp [] w = (resp, w)"
| "applyFasthttpRespCallback ctx resp (cb # cbs) w =
     (case cb ctx resp w of (resp1, w1) \<Rightarrow> applyFasthttpRespCallback ctx resp1 cbs w1)"

definition getFasthttpRespBody :: "fasthttp_Response \<Rightarrow> bytes option" where
  "getFasthttpRespBody resp = Some (resp_body resp)"

type_synonym req_result = "go_context option \<times> bytes option \<times> error option"

text \<open>
  \<open>fasthttpReq\<close> in three parts, one for each deferred call: the part between
  acquiring and releasing the response (lines 123 to 132 of the function), the part
  between acquiring and releasing the request (lines 107 to 121), and the function
  itself, whose deferred \<^verbatim>\<open>childSpan.Finish()\<close> runs last. The results are the named
  results \<^verbatim>\<open>newCtx, respBody, err\<close>, all nil until assigned. A deferred method call
  on a nil interface value panics where it is deferred.
\<close>

definition fasthttpReq_send ::
  "env \<Rightarrow> tracerImpl \<Rightarrow> go_context option \<Rightarrow> fasthttp_Request \<Rightarrow> FasthttpRespCallback list
    \<Rightarrow> world \<Rightarrow> req_result \<times> world" where
  "fasthttpReq_send e ti ctx req cbs w =
     (case
        (case sendFasthttpReqWithTimeOut e req (AcquireResponse w) of
           ((resp, Some err), w1) \<Rightarrow> ((None, None, Some err), w1)
         | ((resp, None), w1) \<Rightarrow>
             (case CtxWithSpanCtxFromFasthttpHeader ti ctx (resp_Header resp) w1 of
                (newCtx, w2) \<Rightarrow>
                  (case applyFasthttpRespCallback newCtx resp cbs w2 of
                     (resp1, w3) \<Rightarrow> ((newCtx, getFasthttpRespBody resp1, None), w3))))
      of (res, w4) \<Rightarrow> (res, ReleaseResponse w4))"

definition fasthttpReq_build ::
  "env \<Rightarrow> tracerImpl \<Rightarrow> go_context option \<Rightarrow> span \<Rightarrow> string \<Rightarrow> string \<Rightarrow> go_value option
    \<Rightarrow> go_map \<Rightarrow> go_map \<Rightarrow> FasthttpRespCallback list \<Rightarrow> world \<Rightarrow> req_result \<times> world" where
  "fasthttpReq_build e ti ctx childSpan url method jsonData mapHeader mapCookie cbs w =
     (case AcquireRequest w of
        (req, w1) \<Rightarrow>
          (case
             (case Inject2FasthttpHeader ti (Some childSpan) (req_Header req) w1 of
                ((hdr, Some err), w2) \<Rightarrow> ((None, None, Some err), w2)
              | ((hdr, None), w2) \<Rightarrow>
                  (case
                     (case jsonData of
                        None \<Rightarrow> (req\<lparr>req_Header := hdr\<rparr>, None)
                      | Some d \<Rightarrow>
                          (case setFasthttpReqBodyByJsonData e (req\<lparr>req_Header := hdr\<rparr>) d of
                             (rq, Some err) \<Rightarrow> (rq, Some err)
                           | (rq, None) \<Rightarrow>
                               (rq\<lparr>req_Header :=
                                    RequestHeader_Set ''Content-Type'' ''application/json''
                                      (req_Header rq)\<rparr>, None)))
                   of
                     (rq, Some err) \<Rightarrow> ((None, None, Some err), w2)
                   | (rq, None) \<Rightarrow>
                       fasthttpReq_send e ti ctx
                         (setFasthttpReqCookiesByMap
                            (setFasthttpReqHeaderByMap
                               (rq\<lparr>req_uri := url,
                                   req_Header := RequestHeader_SetMethod method (req_Header rq)\<rparr>)
                               mapHeader)
                            mapCookie)
                         cbs w2))
           of (res, w3) \<Rightarrow> (res, ReleaseRequest w3)))"

definition fasthttpReq ::
  "env \<Rightarrow> tracerImpl \<Rightarrow> go_context option \<Rightarrow> string \<Rightarrow> string \<Rightarrow> go_value option
    \<Rightarrow> go_map \<Rightarrow> go_map \<Rightarrow> FasthttpRespCallback list \<Rightarrow> world
    \<Rightarrow> (panic + req_result) \<times> world" where
  "fasthttpReq e ti ctx url method jsonData mapHeader mapCookie cbs w =
     (case ChildSpanFromContext ti url ctx w of
        (None, w1) \<Rightarrow> (Inl NilDereference, w1)
      | (Some childSpan, w1) \<Rightarrow>
          (case fasthttpReq_build e ti ctx childSpan url method jsonData mapHeader mapCookie cbs w1 of
             (res, w2) \<Rightarrow> (Inr res, Span_Finish childSpan w2)))"

definition GetFasthttp ::
  "env \<Rightarrow> tracerImpl \<Rightarrow> go_context option \<Rightarrow> string \<Rightarrow> go_map \<Rightarrow> go_map
    \<Rightarrow> FasthttpRespCallback list \<Rightarrow> world \<Rightarrow> (panic + req_result) \<times> world" where
  "GetFasthttp e ti ctx url mapHeader mapCookie cbs w =
     fasthttpReq e ti ctx url ''GET'' None mapHeader mapCookie cbs w"

definition PostJsonFasthttp ::
  "env \<Rightarrow> tracerImpl \<Rightarrow> go_context option \<Rightarrow> string \<Rightarrow> go_value option \<Rightarrow> go_map \<Rightarrow> go_map
    \<Rightarrow> FasthttpRespCallback list \<Rightarrow> world \<Rightarrow> (panic + req_result) \<times> world" where
  "PostJsonFasthttp e ti ctx url d mapHeader mapCookie cbs w =
     fasthttpReq e ti ctx url ''POST'' d mapHeader mapCookie cbs w"

definition DeleteJsonFasthttp ::
  "env \<Rightarrow> tracerImpl \<Rightarrow> go_context option \<Rightarrow> string \<Rightarrow> go_value option \<Rightarrow> go_map \<Rightarrow> go_map
    \<Rightarrow> FasthttpRespCallback list \<Rightarrow> world \<Rightarrow> (panic + req_result) \<times> world" where
  "DeleteJsonFasthttp e ti ctx url d mapHeader mapCookie cbs w =
     fasthttpReq e ti ctx url ''DELETE'' d mapHeader mapCookie cbs w"

definition PutJsonFasthttp ::
  "env \<Rightarrow> tracerImpl \<Rightarrow> go_context option \<Rightarrow> string \<Rightarrow> go_value option \<Rightarrow> go_map \<Rightarrow> go_map
    \<Rightarrow> FasthttpRespCallback list \<Rightarrow> world \<Rightarrow> (panic + req_result) \<times> world" where
  "PutJsonFasthttp e ti ctx url d mapHeader mapCookie cbs w =
     fasthttpReq e ti ctx url ''PUT'' d mapHeader mapCookie cbs w"

text \<open>The network sends recorded in a state.\<close>

fun is_DoTimeout :: "event \<Rightarrow> bool" where
  "is_DoTimeout (EvDoTimeout req) = True"
| "is_DoTimeout ev = False"

definition network_sends :: "world \<Rightarrow> event list" where
  "network_sends w = filter is_DoTimeout (events w)"



section \<open>The inbound middleware\<close>

text \<open>
  The fields of \<^verbatim>\<open>http.Request\<close> in use. \<^verbatim>\<open>r.Context()\<close> is the background context
  when none was set, and \<^verbatim>\<open>r.WithContext\<close> panics on a nil context.
\<close>

record http_Request =
  r_Method :: string
  r_URL_Path :: string
  r_Header :: http_Header
  r_ctx :: "go_context option"

definition Request_Context :: "http_Request \<Rightarrow> go_context" where
  "Request_Context r = (case r_ctx r of None \<Rightarrow> Background | Some c \<Rightarrow> c)"

text \<open>
  An \<^verbatim>\<open>http.ResponseWriter\<close> is the table of its methods, and an \<^verbatim>\<open>http.Handler\<close> is
  its \<^verbatim>\<open>ServeHTTP\<close>. \<^verbatim>\<open>WriteHeader\<close> and \<^verbatim>\<open>ServeHTTP\<close> may panic: the result is the
  panic, if any, and the state reached.
\<close>

record ResponseWriter =
  rw_WriteHeader :: "int \<Rightarrow> world \<Rightarrow> panic option \<times> world"
  rw_Write :: "bytes \<Rightarrow> world \<Rightarrow> world"

type_synonym Handler = "ResponseWriter \<Rightarrow> http_Request \<Rightarrow> world \<Rightarrow> panic option \<times> world"

text \<open>
  The writer the server of net/http hands to a handler. \<^verbatim>\<open>WriteHeader\<close> after the
  header was written is ignored; before, a code outside 100 to 999 panics, an
  informational code other than 101 is sent and leaves the header unwritten, and any
  other code is sent as the header. \<^verbatim>\<open>Write\<close> first writes the header with code 200
  if it was not written.
\<close>

definition server_WriteHeader :: "int \<Rightarrow> world \<Rightarrow> panic option \<times> world" where
  "server_WriteHeader code w =
     (if srv_wroteHeader w then (None, w)
      else if code < 100 \<or> code > 999 then (Some (InvalidWriteHeaderCode code), w)
      else if 100 \<le> code \<and> code \<le> 199 \<and> code \<noteq> 101 then (None, emit (EvWriteHeader code) w)
      else (None, emit (EvWriteHeader code) (w\<lparr>srv_wroteHeader := True\<rparr>)))"

definition server_Write :: "bytes \<Rightarrow> world \<Rightarrow> world" where
  "server_Write b w =
     emit (EvWrite b)
       (if srv_wroteHeader w then w else emit (EvWriteHeader 200) (w\<lparr>srv_wroteHeader := True\<rparr>))"

definition server_writer :: ResponseWriter where
  "server_writer = \<lparr>rw_WriteHeader = server_WriteHeader, rw_Write = server_Write\<rparr>"

text \<open>
  \<^verbatim>\<open>&statusCodeTracker{ResponseWriter: w}\<close> allocates a tracker whose \<^verbatim>\<open>statusCode\<close> is
  zero. The embedded writer never changes, so the tracker at address \<open>a\<close> is the
  address, the embedded writer, and the field \<open>sct_statusCode w a\<close> of the state.
\<close>

definition new_statusCodeTracker :: "world \<Rightarrow> nat \<times> world" where
  "new_statusCodeTracker w =
     (sct_next w, w\<lparr>sct_statusCode := (sct_statusCode w)(sct_next w := 0), sct_next := Suc (sct_next w)\<rparr>)"

definition statusCodeTracker_WriteHeader ::
  "nat \<Rightarrow> ResponseWriter \<Rightarrow> int \<Rightarrow> world \<Rightarrow> panic option \<times> world" where
  "statusCodeTracker_WriteHeader a inner statusCode w =
     rw_WriteHeader inner statusCode (w\<lparr>sct_statusCode := (sct_statusCode w)(a := statusCode)\<rparr>)"

text \<open>The tracker as an \<^verbatim>\<open>http.ResponseWriter\<close>: \<^verbatim>\<open>Write\<close> is that of the embedded writer.\<close>

definition statusCodeTracker_writer :: "nat \<Rightarrow> ResponseWriter \<Rightarrow> ResponseWriter" where
  "statusCodeTracker_writer a inner =
     \<lparr>rw_WriteHeader = statusCodeTracker_WriteHeader a inner, rw_Write = rw_Write inner\<rparr>"

definition httpMiddleWareComponentName :: string where
  "httpMiddleWareComponentName = ''ot-mw-tracer''"

definition logFieldKeyHttpStatusCode :: string where
  "logFieldKeyHttpStatusCode = ''http.status_code''"

definition logFieldHttpMiddleWareComponentName :: log_field where
  "logFieldHttpMiddleWareComponentName = LogString ''component'' httpMiddleWareComponentName"

definition getOperationNameFromHttpRequest :: "http_Request \<Rightarrow> string" where
  "getOperationNameFromHttpRequest r = (([] @ ''HTTP '') @ r_Method r) @ [CHR '' ''] @ r_URL_Path r"

definition HttpMiddleWare :: "tracerImpl \<Rightarrow> Handler \<Rightarrow> Handler" where
  "HttpMiddleWare ti handler =
     (if ti = noopTracerImpl then handler
      else (\<lambda>w r wld.
        (case ChildSpanFromHttpHeader ti (getOperationNameFromHttpRequest r) (r_Header r) wld of
           (child, w1) \<Rightarrow>
             (case ContextWithSpan ti (Some (Request_Context r)) child of
                None \<Rightarrow> (Some NilContext, w1)
              | Some c \<Rightarrow>
                  (case new_statusCodeTracker w1 of
                     (sct, w2) \<Rightarrow>
                       (case handler (statusCodeTracker_writer sct w) (r\<lparr>r_ctx := Some c\<rparr>) w2 of
                          (Some p, w3) \<Rightarrow> (Some p, w3)
                        | (None, w3) \<Rightarrow>
                            (case child of
                               None \<Rightarrow> (Some NilDereference, w3)
                             | Some ch \<Rightarrow>
                                 (None,
                                  Span_Finish ch
                                    (Span_LogFields ch
                                       [logFieldHttpMiddleWareComponentName,
                                        LogInt logFieldKeyHttpStatusCode (sct_statusCode w3 sct)]
                                       w3)))))))))"

text \<open>
  Handlers to run the middleware on: one that makes a given sequence of calls on the
  writer it is handed, and does nothing else. A call that panics ends it.
\<close>

datatype rw_call = CallWriteHeader int | CallWrite bytes

fun run_calls :: "rw_call list \<Rightarrow> ResponseWriter \<Rightarrow> world \<Rightarrow> panic option \<times> world" where
  "run_calls [] rw w = (None, w)"
| "run_calls (CallWriteHeader statusCode # cs) rw w =
     (case rw_WriteHeader rw statusCode w of
        (Some p, w1) \<Rightarrow> (Some p, w1)
      | (None, w1) \<Rightarrow> run_calls cs rw w1)"
| "run_calls (CallWrite b # cs) rw w = run_calls cs rw (rw_Write rw b w)"

definition script_handler :: "rw_call list \<Rightarrow> Handler" where
  "script_handler cs = (\<lambda>rw r w. run_calls cs rw w)"

text \<open>The status codes that \<^verbatim>\<open>WriteHeader\<close> of net/http accepts.\<close>

definition valid_code :: "int \<Rightarrow> bool" where
  "valid_code code = (100 \<le> code \<and> code \<le> 999)"

text \<open>The arguments of the \<^verbatim>\<open>WriteHeader\<close> calls of a sequence of calls, in order.\<close>

fun written_codes :: "rw_call list \<Rightarrow> int list" where
  "written_codes [] = []"
| "written_codes (CallWriteHeader statusCode # cs) = statusCode # written_codes cs"
| "written_codes (CallWrite b # cs) = written_codes cs"

text \<open>The status codes logged onto spans under \<^verbatim>\<open>http.status_code\<close>, in order.\<close>

fun logged_status :: "event \<Rightarrow> int list" where
  "logged_status (EvLogFields s fs) =
     concat (map (\<lambda>f. case f of LogInt k v \<Rightarrow> (if k = logFieldKeyHttpStatusCode then [v] else [])
                              | LogString k v \<Rightarrow> []) fs)"
| "logged_status ev = []"

definition logged_status_codes :: "world \<Rightarrow> int list" where
  "logged_status_codes w = concat (map logged_status (events w))"

text \<open>The operation names of the spans started in a state, in order.\<close>

fun started_name :: "event \<Rightarrow> string list" where
  "started_name (EvStartSpan operationName opts) = [operationName]"
| "started_name ev = []"

definition started_names :: "world \<Rightarrow> string list" where
  "started_names w = concat (map started_name (events w))"


section \<open>The carrier over a fasthttp response header\<close>

text \<open>
  \<^verbatim>\<open>ResponseHeader.VisitAll(f)\<close> of fasthttp calls \<open>f\<close> on every pair; \<open>f\<close> returns
  nothing, so it has no way to stop the visit. The function literal handed over by
  \<open>ForeachKey\<close> assigns the captured result \<^verbatim>\<open>err\<close>. The handler is a closure: it
  works on a state of its own, \<open>'s\<close>.
\<close>

fun VisitAll :: "fasthttp_ResponseHeader \<Rightarrow> (string \<Rightarrow> string \<Rightarrow> 'a \<Rightarrow> 'a) \<Rightarrow> 'a \<Rightarrow> 'a" where
  "VisitAll [] f st = st"
| "VisitAll ((key, val) # h) f st = VisitAll h f (f key val st)"

definition ForeachKey ::
  "fasthttp_ResponseHeader \<Rightarrow> (string \<Rightarrow> string \<Rightarrow> 's \<Rightarrow> error option \<times> 's) \<Rightarrow> 's
    \<Rightarrow> error option \<times> 's" where
  "ForeachKey frhc handler st =
     VisitAll frhc (\<lambda>key val (err, s). handler key val s) (None, st)"

text \<open>
  The contract of \<^verbatim>\<open>opentracing.TextMapReader\<close>, which the package declares the carrier
  to implement: stop at the first pair on which the handler fails, and return that
  error.
\<close>

fun ForeachKey_contract ::
  "fasthttp_ResponseHeader \<Rightarrow> (string \<Rightarrow> string \<Rightarrow> 's \<Rightarrow> error option \<times> 's) \<Rightarrow> 's
    \<Rightarrow> error option \<times> 's" where
  "ForeachKey_contract [] handler st = (None, st)"
| "ForeachKey_contract ((key, val) # h) handler st =
     (case handler key val st of
        (Some err, s) \<Rightarrow> (Some err, s)
      | (None, s) \<Rightarrow> ForeachKey_contract h handler s)"

text \<open>A handler that records the keys it is called on and fails on the key \<open>bad\<close>.\<close>

definition failing_on :: "string \<Rightarrow> string \<Rightarrow> string \<Rightarrow> string list \<Rightarrow> error option \<times> string list" where
  "failing_on bad key val visited =
     (if key = bad then (Some ''rejected'', visited @ [key]) else (None, visited @ [key]))"



section \<open>Concrete collaborators\<close>

text \<open>
  A tracer of another package on which the functions can be run: it numbers its
  spans by the events so far, writes one trace header on injection, and on
  extraction finds a span context exactly when that header is among the pairs of a
  fasthttp response header.
\<close>

definition trace_header_name :: string where
  "trace_header_name = ''ot-mw-trace-id''"

definition sample_tracer :: ext_tracer where
  "sample_tracer =
     \<lparr>ext_StartSpan = (\<lambda>operationName opts h. Some (length h, ExtSpanContext (length h))),
      ext_Inject = (\<lambda>sc format h. ([(trace_header_name, ''1'')], None)),
      ext_Extract = (\<lambda>format c h.
         (case c of
            HTTPHeadersCarrier hs \<Rightarrow> (None, Some ''SpanContext not found'')
          | fasthttpRespHeaderCarrier hs \<Rightarrow>
              (if trace_header_name \<in> set (map fst hs) then (Some (ExtSpanContext 1), None)
               else (None, Some ''SpanContext not found''))))\<rparr>"

text \<open>The same tracer with an injection that fails.\<close>

definition rejecting_tracer :: ext_tracer where
  "rejecting_tracer = sample_tracer\<lparr>ext_Inject := (\<lambda>sc format h. ([], Some ''inject rejected''))\<rparr>"

definition world0 :: world where
  "world0 = \<lparr>events = [], sct_statusCode = (\<lambda>a. 0), sct_next = 0, srv_wroteHeader = False\<rparr>"

text \<open>A serializer that rejects channels, and a network on which every send times out.\<close>

definition sample_env :: env where
  "sample_env =
     \<lparr>jsonSerializer_Marshal = (\<lambda>d. case d of GoChan \<Rightarrow> ([], Some ''unsupported type'')
                                        | GoString s \<Rightarrow> (s, None)
                                        | GoInt i \<Rightarrow> (''0'', None)),
      Client_DoTimeout = (\<lambda>req h. (\<lparr>resp_Header = [], resp_body = []\<rparr>, Some ''timeout''))\<rparr>"

definition ping_request :: http_Request where
  "ping_request = \<lparr>r_Method = ''GET'', r_URL_Path = ''/ping'', r_Header = [], r_ctx = None\<rparr>"


section \<open>Properties of URL construction\<close>

lemma range_queryParams_append:
  "range_queryParams kvs acc = acc @ concat (map (\<lambda>kv. kv_pair kv @ ''&'') kvs)"
  by (induction kvs acc rule: range_queryParams.induct) (simp_all add: kv_pair_def)

lemma concat_pairs_join_amp:
  "ps \<noteq> [] \<Longrightarrow> concat (map (\<lambda>p. p @ ''&'') ps) = join_amp ps @ ''&''"
  by (induction ps rule: join_amp.induct) simp_all

lemma range_queryParams_join_amp:
  assumes "kvs \<noteq> []"
  shows "range_queryParams kvs acc = acc @ join_amp (map kv_pair kvs) @ ''&''"
proof -
  have "concat (map (\<lambda>kv. kv_pair kv @ ''&'') kvs)
        = concat (map (\<lambda>p. p @ ''&'') (map kv_pair kvs))"
    by (simp add: comp_def)
  also have "\<dots> = join_amp (map kv_pair kvs) @ ''&''"
    using assms by (intro concat_pairs_join_amp) simp
  finally show ?thesis
    by (simp add: range_queryParams_append)
qed

lemma distinct_count_list_one:
  "distinct xs \<Longrightarrow> x \<in> set xs \<Longrightarrow> count_list xs x = 1"
  by (induction xs) auto

text \<open>
  C9. With a nil or empty query map the URL is exactly host followed by path. With a
  non-empty map, whatever the iteration order \<open>kvs\<close> of its entries, the URL is host,
  path, a question mark and the pairs \<open>k=v\<close> of \<open>kvs\<close> joined by \<open>&\<close> without a trailing
  separator; as the keys of a map are distinct, each entry occurs exactly once among
  the joined pairs.
\<close>

theorem MakeupUrl_spec:
  "MakeupUrlByHostPathQueryParams host path None = host @ path
   \<and> MakeupUrlByHostPathQueryParams host path (Some []) = host @ path
   \<and> (kvs \<noteq> [] \<longrightarrow>
        MakeupUrlByHostPathQueryParams host path (Some kvs)
          = host @ path @ ''?'' @ join_amp (map kv_pair kvs))
   \<and> (distinct (map fst kvs) \<longrightarrow> (\<forall>kv \<in> set kvs. count_list kvs kv = 1))"
proof -
  have "count_list kvs kv = 1" if "distinct (map fst kvs)" "kv \<in> set kvs" for kv
    using that by (simp add: distinct_map distinct_count_list_one)
  moreover have "MakeupUrlByHostPathQueryParams host path (Some kvs)
          = host @ path @ ''?'' @ join_amp (map kv_pair kvs)" if "kvs \<noteq> []"
    using that
    by (simp add: MakeupUrlByHostPathQueryParams_def len_map_def entries_def
        range_queryParams_join_amp)
  ultimately show ?thesis
    by (simp add: MakeupUrlByHostPathQueryParams_def len_map_def entries_def)
qed

theorem MakeupUrl_spec_witness:
  "MakeupUrlByHostPathQueryParams ''http://localhost:18200'' ''/path/xxx''
     (Some [(''abc'', ''213123''), (''def'', ''213123'')])
   = ''http://localhost:18200/path/xxx?abc=213123&def=213123''
   \<and> count_list [(''abc'', ''213123''), (''def'', ''213123'')] (''def'', ''213123'') = 1"
  using MakeupUrl_spec [where kvs = "[(''abc'', ''213123''), (''def'', ''213123'')]"
      and host = "''http://localhost:18200''" and path = "''/path/xxx''"]
  by (simp add: kv_pair_def)

section \<open>Properties of span derivation\<close>

lemma Tracer_StartSpan_not_nil:
  assumes "\<And>x. t = ExtTracer x \<Longrightarrow> ext_StartSpan x opName opts (events w) \<noteq> None"
  shows "fst (Tracer_StartSpan t opName opts w) \<noteq> None"
  using assms by (cases t) simp_all

text \<open>
  C1. Span derivation from a context: a child of the span stored in the context if there
  is one, else a child of the stored span context if there is one, else (also for a nil
  context) a root span with the operation name; from a nil parent, a root span. No
  function has an error result, and none returns nil, given that the tracer of the
  other package never returns a nil span (the no-op tracer never does).
\<close>

theorem span_derivation_total:
  assumes never_nil:
    "\<And>x opts h. tracer_of ti = ExtTracer x \<Longrightarrow> ext_StartSpan x opName opts h \<noteq> None"
  shows
    "(\<forall>c sp. ctx = Some c \<and> ctx_Value c activeSpanKey = Some (SpanVal sp) \<longrightarrow>
        ChildSpanFromContext ti opName ctx w
          = Tracer_StartSpan (tracer_of ti) opName [ChildOf (Span_Context sp)] w)
     \<and> (\<forall>c sc. ctx = Some c \<and> ctx_Value c activeSpanKey = Some (SpanCtxVal sc) \<longrightarrow>
        ChildSpanFromContext ti opName ctx w
          = Tracer_StartSpan (tracer_of ti) opName [ChildOf sc] w)
     \<and> (ctx = None \<or> (\<exists>c. ctx = Some c \<and> ctx_Value c activeSpanKey = None) \<longrightarrow>
        ChildSpanFromContext ti opName ctx w = Tracer_StartSpan (tracer_of ti) opName [] w)
     \<and> ChildSpanFromParent ti opName None w = Tracer_StartSpan (tracer_of ti) opName [] w
     \<and> FollowerSpanFromParent ti opName None w = Tracer_StartSpan (tracer_of ti) opName [] w
     \<and> fst (ChildSpanFromContext ti opName ctx w) \<noteq> None
     \<and> fst (ChildSpanFromParent ti opName parent w) \<noteq> None
     \<and> fst (FollowerSpanFromParent ti opName parent w) \<noteq> None"
proof -
  have nn: "fst (Tracer_StartSpan (tracer_of ti) opName opts w) \<noteq> None" for opts
    by (rule Tracer_StartSpan_not_nil) (rule never_nil)
  have p: "fst (ChildSpanFromParent ti opName q w) \<noteq> None" for q
    using nn by (simp add: ChildSpanFromParent_def StartSpan_def split: option.split)
  have f: "fst (FollowerSpanFromParent ti opName parent w) \<noteq> None"
    using nn by (simp add: FollowerSpanFromParent_def StartSpan_def split: option.split)
  have c: "fst (ChildSpanFromContext ti opName ctx w) \<noteq> None"
    using nn p by (simp add: ChildSpanFromContext_def StartSpan_def split: prod.split option.split)
  show ?thesis
    using p [of parent] f c
    by (auto simp add: ChildSpanFromContext_def ChildSpanFromParent_def FollowerSpanFromParent_def
        StartSpan_def spanInfoFromContext_def)
qed

theorem span_derivation_total_witness:
  "ChildSpanFromContext (AllocatedImpl (ExtTracer sample_tracer)) ''op''
      (Some (WithValue Background activeSpanKey (SpanVal (ExtSpan 7 (ExtSpanContext 7))))) world0
    = (Some (ExtSpan 0 (ExtSpanContext 0)), emit (EvStartSpan ''op'' [ChildOf (ExtSpanContext 7)]) world0)
   \<and> ChildSpanFromContext (AllocatedImpl (ExtTracer sample_tracer)) ''op''
      (Some (WithValue Background activeSpanKey (SpanCtxVal (ExtSpanContext 3)))) world0
    = (Some (ExtSpan 0 (ExtSpanContext 0)), emit (EvStartSpan ''op'' [ChildOf (ExtSpanContext 3)]) world0)
   \<and> ChildSpanFromContext (AllocatedImpl (ExtTracer sample_tracer)) ''op'' None world0
    = (Some (ExtSpan 0 (ExtSpanContext 0)), emit (EvStartSpan ''op'' []) world0)
   \<and> fst (ChildSpanFromContext noopTracerImpl ''op'' (Some Background) world0) \<noteq> None"
proof -
  let ?T = "AllocatedImpl (ExtTracer sample_tracer)"
  have nn: "\<And>x opts h. tracer_of ?T = ExtTracer x \<Longrightarrow> ext_StartSpan x ''op'' opts h \<noteq> None"
    by (auto simp add: sample_tracer_def)
  have nn0: "\<And>x opts h. tracer_of noopTracerImpl = ExtTracer x
      \<Longrightarrow> ext_StartSpan x ''op'' opts h \<noteq> None"
    by (simp add: noopTracerImpl_def defaultNoopTracer_def)
  have start: "Tracer_StartSpan (tracer_of ?T) ''op'' opts world0
      = (Some (ExtSpan 0 (ExtSpanContext 0)), emit (EvStartSpan ''op'' opts) world0)" for opts
    by (simp add: sample_tracer_def world0_def)
  have a: "ChildSpanFromContext ?T ''op''
      (Some (WithValue Background activeSpanKey (SpanVal (ExtSpan 7 (ExtSpanContext 7))))) world0
      = Tracer_StartSpan (tracer_of ?T) ''op'' [ChildOf (ExtSpanContext 7)] world0"
    using span_derivation_total [where ti = ?T and opName = "''op''" and w = world0
      and ctx = "Some (WithValue Background activeSpanKey (SpanVal (ExtSpan 7 (ExtSpanContext 7))))",
      OF nn]
    by simp
  have b: "ChildSpanFromContext ?T ''op''
      (Some (WithValue Background activeSpanKey (SpanCtxVal (ExtSpanContext 3)))) world0
      = Tracer_StartSpan (tracer_of ?T) ''op'' [ChildOf (ExtSpanContext 3)] world0"
    using span_derivation_total [where ti = ?T and opName = "''op''" and w = world0
      and ctx = "Some (WithValue Background activeSpanKey (SpanCtxVal (ExtSpanContext 3)))",
      OF nn]
    by simp
  have c: "ChildSpanFromContext ?T ''op'' None world0
      = Tracer_StartSpan (tracer_of ?T) ''op'' [] world0"
    using span_derivation_total [where ti = ?T and opName = "''op''" and w = world0
      and ctx = None, OF nn]
    by simp
  have d: "fst (ChildSpanFromContext noopTracerImpl ''op'' (Some Background) world0) \<noteq> None"
    using span_derivation_total [where ti = noopTracerImpl and opName = "''op''" and w = world0
      and ctx = "Some Background" and parent = None, OF nn0]
    by blast
  show ?thesis
    unfolding a b c start using d by simp
qed

section \<open>Properties of the no-op substitution\<close>

lemma noop_extractFromHttpHeader:
  "extractFromHttpHeader noopTracerImpl header w = ((Some defaultNoopSpanContext, None), w)"
  by (simp add: extractFromHttpHeader_def noopTracerImpl_def defaultNoopTracer_def)

lemma noop_extractFromFasthttpHeader:
  "extractFromFasthttpHeader noopTracerImpl header w = ((Some defaultNoopSpanContext, None), w)"
  by (simp add: extractFromFasthttpHeader_def noopTracerImpl_def defaultNoopTracer_def)

text \<open>
  C5, as the code has it. The Extract of the no-op tracer reports no error and yields
  the shared no-op span context, which is not nil. So on a context that is not nil
  both functions return a new context, derived from the caller's, that holds the
  no-op span context under the well-known key; a nil context is returned as it is.
  The state is left as it was.
\<close>

theorem noop_extract_stores_noop_context:
  "Tracer_Extract noopTracer format car w = ((Some defaultNoopSpanContext, None), w)
   \<and> CtxWithSpanCtxFromHttpHeader noopTracerImpl (Some c) header w
       = (Some (WithValue c activeSpanKey (SpanCtxVal defaultNoopSpanContext)), w)
   \<and> CtxWithSpanCtxFromFasthttpHeader noopTracerImpl (Some c) fheader w
       = (Some (WithValue c activeSpanKey (SpanCtxVal defaultNoopSpanContext)), w)
   \<and> CtxWithSpanCtxFromHttpHeader noopTracerImpl None header w = (None, w)
   \<and> CtxWithSpanCtxFromFasthttpHeader noopTracerImpl None fheader w = (None, w)"
  by (simp add: CtxWithSpanCtxFromHttpHeader_def CtxWithSpanCtxFromFasthttpHeader_def
      noop_extractFromHttpHeader noop_extractFromFasthttpHeader)

text \<open>
  C5 as stated fails: on the background context and an empty header, the no-op
  tracer's Extract yields a span context, and the context returned is not the
  caller's.
\<close>

theorem noop_extract_not_absent:
  "fst (fst (Tracer_Extract noopTracer HTTPHeaders (HTTPHeadersCarrier []) world0)) \<noteq> None
   \<and> fst (CtxWithSpanCtxFromHttpHeader noopTracerImpl (Some Background) [] world0)
       \<noteq> Some Background
   \<and> fst (CtxWithSpanCtxFromFasthttpHeader noopTracerImpl (Some Background) [] world0)
       \<noteq> Some Background"
  by (simp add: CtxWithSpanCtxFromHttpHeader_def CtxWithSpanCtxFromFasthttpHeader_def
      noop_extractFromHttpHeader noop_extractFromFasthttpHeader)

text \<open>
  C8. On the no-op tracer implementation the middleware returns the handler it was
  given.
\<close>

theorem HttpMiddleWare_noop_identity:
  "HttpMiddleWare noopTracerImpl handler = handler
   \<and> HttpMiddleWare InitEmptyTracer handler = handler"
  by (simp add: HttpMiddleWare_def InitEmptyTracer_def)


section \<open>Properties of folding a response's span context into a context\<close>

text \<open>
  C6. On a context that is not nil: when extraction yields no span context, with or
  without an error, the result is the caller's context itself; otherwise it is a new
  context above the caller's, in which the well-known key holds the extracted span
  context, whatever it held before, and every other key holds what it held. Contexts
  are values: the caller's is part of the new one, unchanged.
\<close>

theorem CtxWithSpanCtxFromFasthttpHeader_spec:
  assumes "extractFromFasthttpHeader ti header w = ((spanCtx, err), w1)"
  shows "(spanCtx = None \<longrightarrow>
            CtxWithSpanCtxFromFasthttpHeader ti (Some c) header w = (Some c, w1))
       \<and> (\<forall>sc. spanCtx = Some sc \<longrightarrow>
            (\<exists>newCtx.
               CtxWithSpanCtxFromFasthttpHeader ti (Some c) header w = (Some newCtx, w1)
               \<and> newCtx = WithValue c activeSpanKey (SpanCtxVal sc)
               \<and> ctx_Value newCtx activeSpanKey = Some (SpanCtxVal sc)
               \<and> (\<forall>k. k \<noteq> activeSpanKey \<longrightarrow> ctx_Value newCtx k = ctx_Value c k)))"
  using assms by (simp add: CtxWithSpanCtxFromFasthttpHeader_def)

theorem CtxWithSpanCtxFromFasthttpHeader_spec_witness:
  "CtxWithSpanCtxFromFasthttpHeader (AllocatedImpl (ExtTracer sample_tracer))
      (Some (WithValue Background activeSpanKey (SpanVal NoopSpan))) [(''server'', ''x'')] world0
     = (Some (WithValue Background activeSpanKey (SpanVal NoopSpan)),
        emit (EvExtract fasthttpHeadersCodecFormat) world0)
   \<and> CtxWithSpanCtxFromFasthttpHeader (AllocatedImpl (ExtTracer sample_tracer))
      (Some (WithValue Background activeSpanKey (SpanVal NoopSpan)))
      [(''server'', ''x''), (''ot-mw-trace-id'', ''1'')] world0
     = (Some (WithValue (WithValue Background activeSpanKey (SpanVal NoopSpan)) activeSpanKey
               (SpanCtxVal (ExtSpanContext 1))),
        emit (EvExtract fasthttpHeadersCodecFormat) world0)"
proof -
  let ?T = "AllocatedImpl (ExtTracer sample_tracer)"
  have absent: "extractFromFasthttpHeader ?T [(''server'', ''x'')] world0
      = ((None, Some ''SpanContext not found''), emit (EvExtract fasthttpHeadersCodecFormat) world0)"
    by (simp add: extractFromFasthttpHeader_def sample_tracer_def trace_header_name_def)
  have present: "extractFromFasthttpHeader ?T [(''server'', ''x''), (''ot-mw-trace-id'', ''1'')] world0
      = ((Some (ExtSpanContext 1), None), emit (EvExtract fasthttpHeadersCodecFormat) world0)"
    by (simp add: extractFromFasthttpHeader_def sample_tracer_def trace_header_name_def)
  show ?thesis
    using CtxWithSpanCtxFromFasthttpHeader_spec [OF absent,
        where c = "WithValue Background activeSpanKey (SpanVal NoopSpan)"]
      CtxWithSpanCtxFromFasthttpHeader_spec [OF present,
        where c = "WithValue Background activeSpanKey (SpanVal NoopSpan)"]
    by simp
qed


section \<open>Properties of the carrier over a fasthttp response header\<close>

lemma VisitAll_failing_on:
  "VisitAll h (\<lambda>key val (err, s). failing_on bad key val s) (e, visited)
     = ((if h = [] then e else if fst (last h) = bad then Some ''rejected'' else None),
        visited @ map fst h)"
  by (induction h arbitrary: e visited) (auto simp add: failing_on_def)

text \<open>
  \<open>ForeachKey\<close> does not stop at a failure: the handler \<open>failing_on bad\<close> is called on
  every pair of the header, and the result is what it returned on the last pair.
\<close>

lemma ForeachKey_visits_all:
  "ForeachKey h (failing_on bad) []
     = ((if h = [] then None else if fst (last h) = bad then Some ''rejected'' else None),
        map fst h)"
  by (simp add: ForeachKey_def VisitAll_failing_on)

text \<open>
  C3. Stopping at the first failing pair and returning its error is the contract of
  the carrier; the code does neither. On a header of two pairs and a handler that
  fails on the first, \<open>ForeachKey\<close> visits both pairs and returns nil, where the
  contract stops after the first pair and returns the error.
\<close>

theorem ForeachKey_loses_first_error:
  "ForeachKey [(''a'', ''1''), (''b'', ''2'')] (failing_on ''a'') [] = (None, [''a'', ''b''])
   \<and> ForeachKey_contract [(''a'', ''1''), (''b'', ''2'')] (failing_on ''a'') []
       = (Some ''rejected'', [''a''])"
  by (simp add: ForeachKey_def failing_on_def)

section \<open>Properties of the outbound request pipeline\<close>

lemma network_sends_emit:
  "network_sends (emit ev w) = (if is_DoTimeout ev then network_sends w @ [ev] else network_sends w)"
  by (simp add: network_sends_def emit_def)

lemma events_Span_Finish:
  "events (Span_Finish (ExtSpan i sc) w) = events w @ [EvFinish (ExtSpan i sc)]"
  by (simp add: emit_def)

lemma network_sends_Span_Finish:
  "network_sends (Span_Finish s w) = network_sends w"
  by (cases s) (simp_all add: network_sends_emit)

lemma network_sends_Tracer_StartSpan:
  "network_sends (snd (Tracer_StartSpan t opName opts w)) = network_sends w"
  by (cases t) (simp_all add: network_sends_emit)

lemma network_sends_ChildSpanFromContext:
  "network_sends (snd (ChildSpanFromContext ti opName ctx w)) = network_sends w"
  by (simp add: ChildSpanFromContext_def ChildSpanFromParent_def StartSpan_def
      network_sends_Tracer_StartSpan split: prod.split option.split)

lemma network_sends_Tracer_Inject:
  "network_sends (snd (Tracer_Inject t sc format header w)) = network_sends w"
  by (cases t) (simp_all add: network_sends_emit split: prod.split)

lemma network_sends_Inject2FasthttpHeader:
  "network_sends (snd (Inject2FasthttpHeader ti s header w)) = network_sends w"
  by (simp add: Inject2FasthttpHeader_def injectSpanCtx2FasthttpHeader_def
      network_sends_Tracer_Inject split: option.split)

text \<open>The exit of \<open>fasthttpReq\<close> on a failed injection.\<close>

lemma fasthttpReq_inject_failure:
  assumes "ChildSpanFromContext ti url ctx w = (Some childSpan, w1)"
    and "Inject2FasthttpHeader ti (Some childSpan) empty_RequestHeader (emit EvAcquireRequest w1)
           = ((hdr, Some err), w2)"
  shows "fasthttpReq e ti ctx url method jsonData mapHeader mapCookie cbs w
           = (Inr (None, None, Some err), Span_Finish childSpan (ReleaseRequest w2))"
  using assms by (simp add: fasthttpReq_def fasthttpReq_build_def AcquireRequest_def)

text \<open>Every return of \<open>fasthttpReq\<close> passes through the deferred \<open>Finish\<close> of the span.\<close>

lemma fasthttpReq_returns_finished:
  assumes "ChildSpanFromContext ti url ctx w = (Some childSpan, w1)"
  shows "\<exists>res w3. fasthttpReq e ti ctx url method jsonData mapHeader mapCookie cbs w
           = (Inr res, Span_Finish childSpan w3)"
  using assms by (auto simp add: fasthttpReq_def split: prod.split)

text \<open>An error result comes with a nil context and a nil body.\<close>

lemma fasthttpReq_send_error_nil:
  "fasthttpReq_send e ti ctx req cbs w = ((newCtx, respBody, Some err), w1)
     \<Longrightarrow> newCtx = None \<and> respBody = None"
  by (auto simp add: fasthttpReq_send_def split: prod.splits option.splits)

lemma fasthttpReq_build_error_nil:
  "fasthttpReq_build e ti ctx childSpan url method jsonData mapHeader mapCookie cbs w
      = ((newCtx, respBody, Some err), w1)
     \<Longrightarrow> newCtx = None \<and> respBody = None"
  by (auto simp add: fasthttpReq_build_def split: prod.splits option.splits
      dest: fasthttpReq_send_error_nil)

lemma fasthttpReq_error_nil:
  "fasthttpReq e ti ctx url method jsonData mapHeader mapCookie cbs w
      = (Inr (newCtx, respBody, Some err), w1)
     \<Longrightarrow> newCtx = None \<and> respBody = None"
  by (auto simp add: fasthttpReq_def split: prod.splits option.splits
      dest: fasthttpReq_build_error_nil)

text \<open>
  C2. Let the pipeline have derived the span \<open>childSpan\<close>. If injecting its context
  into the header of the acquired request fails, the function returns that error,
  after releasing the request and finishing the span, and the network sends are those
  from before the call: nothing was sent. On every return the last thing done is the
  \<open>Finish\<close> of the span; for a span of a tracer of another package, that call is the
  last event.
\<close>

theorem fasthttpReq_inject_failure_no_send:
  assumes "ChildSpanFromContext ti url ctx w = (Some childSpan, w1)"
  shows "(\<forall>hdr err w2.
            Inject2FasthttpHeader ti (Some childSpan) empty_RequestHeader (emit EvAcquireRequest w1)
              = ((hdr, Some err), w2) \<longrightarrow>
            fasthttpReq e ti ctx url meth jsonData mapHeader mapCookie cbs w
              = (Inr (None, None, Some err), Span_Finish childSpan (ReleaseRequest w2))
            \<and> network_sends (snd (fasthttpReq e ti ctx url meth jsonData mapHeader mapCookie cbs w))
              = network_sends w)
       \<and> (\<exists>res w3. fasthttpReq e ti ctx url meth jsonData mapHeader mapCookie cbs w
              = (Inr res, Span_Finish childSpan w3))
       \<and> (childSpan \<noteq> NoopSpan \<longrightarrow>
            (\<exists>evs. events (snd (fasthttpReq e ti ctx url meth jsonData mapHeader mapCookie cbs w))
              = evs @ [EvFinish childSpan]))"
proof (intro conjI allI impI)
  fix hdr err w2
  assume inj: "Inject2FasthttpHeader ti (Some childSpan) empty_RequestHeader (emit EvAcquireRequest w1)
      = ((hdr, Some err), w2)"
  show r: "fasthttpReq e ti ctx url meth jsonData mapHeader mapCookie cbs w
      = (Inr (None, None, Some err), Span_Finish childSpan (ReleaseRequest w2))"
    by (rule fasthttpReq_inject_failure [OF assms inj])
  have "network_sends w2 = network_sends (emit EvAcquireRequest w1)"
    using network_sends_Inject2FasthttpHeader
      [of ti "Some childSpan" empty_RequestHeader "emit EvAcquireRequest w1"] inj
    by simp
  moreover have "network_sends w1 = network_sends w"
    using network_sends_ChildSpanFromContext [of ti url ctx w] assms by simp
  ultimately show "network_sends (snd (fasthttpReq e ti ctx url meth jsonData mapHeader mapCookie cbs w))
      = network_sends w"
    by (simp add: r network_sends_Span_Finish ReleaseRequest_def network_sends_emit)
next
  show "\<exists>res w3. fasthttpReq e ti ctx url meth jsonData mapHeader mapCookie cbs w
      = (Inr res, Span_Finish childSpan w3)"
    by (rule fasthttpReq_returns_finished [OF assms])
next
  assume "childSpan \<noteq> NoopSpan"
  then obtain i sc where cs: "childSpan = ExtSpan i sc"
    by (cases childSpan) simp_all
  obtain res w3 where "fasthttpReq e ti ctx url meth jsonData mapHeader mapCookie cbs w
      = (Inr res, Span_Finish childSpan w3)"
    using fasthttpReq_returns_finished [OF assms] by blast
  then show "\<exists>evs. events (snd (fasthttpReq e ti ctx url meth jsonData mapHeader mapCookie cbs w))
      = evs @ [EvFinish childSpan]"
    by (simp add: cs emit_def)
qed

theorem fasthttpReq_inject_failure_no_send_witness:
  "fst (fasthttpReq sample_env (AllocatedImpl (ExtTracer rejecting_tracer)) None
          ''http://localhost:8082/pong'' ''GET'' None None None [] world0)
     = Inr (None, None, Some ''inject rejected'')
   \<and> events (snd (fasthttpReq sample_env (AllocatedImpl (ExtTracer rejecting_tracer)) None
          ''http://localhost:8082/pong'' ''GET'' None None None [] world0))
     = [EvStartSpan ''http://localhost:8082/pong'' [], EvAcquireRequest,
        EvInject (ExtSpanContext 0) fasthttpHeadersCodecFormat, EvReleaseRequest,
        EvFinish (ExtSpan 0 (ExtSpanContext 0))]
   \<and> network_sends (snd (fasthttpReq sample_env (AllocatedImpl (ExtTracer rejecting_tracer)) None
          ''http://localhost:8082/pong'' ''GET'' None None None [] world0))
     = []
   \<and> last (events (snd (fasthttpReq sample_env (AllocatedImpl (ExtTracer sample_tracer)) None
          ''http://localhost:8082/pong'' ''GET'' None None None [] world0)))
     = EvFinish (ExtSpan 0 (ExtSpanContext 0))"
proof -
  let ?R = "AllocatedImpl (ExtTracer rejecting_tracer)"
  let ?T = "AllocatedImpl (ExtTracer sample_tracer)"
  let ?url = "''http://localhost:8082/pong''"
  let ?cs = "ExtSpan 0 (ExtSpanContext 0)"
  let ?w1 = "emit (EvStartSpan ?url []) world0"
  let ?w2 = "emit (EvInject (ExtSpanContext 0) fasthttpHeadersCodecFormat) (emit EvAcquireRequest ?w1)"
  have child: "ChildSpanFromContext ?R ?url None world0 = (Some ?cs, ?w1)"
    by (simp add: ChildSpanFromContext_def spanInfoFromContext_def StartSpan_def
        rejecting_tracer_def sample_tracer_def world0_def)
  have child': "ChildSpanFromContext ?T ?url None world0 = (Some ?cs, ?w1)"
    by (simp add: ChildSpanFromContext_def spanInfoFromContext_def StartSpan_def
        sample_tracer_def world0_def)
  have inj: "Inject2FasthttpHeader ?R (Some ?cs) empty_RequestHeader (emit EvAcquireRequest ?w1)
      = ((empty_RequestHeader, Some ''inject rejected''), ?w2)"
    by (simp add: Inject2FasthttpHeader_def injectSpanCtx2FasthttpHeader_def
        rejecting_tracer_def sample_tracer_def)
  note rejected = fasthttpReq_inject_failure_no_send [OF child, where e = sample_env
      and meth = "''GET''" and jsonData = None and mapHeader = None and mapCookie = None
      and cbs = "[]"]
  note sent = fasthttpReq_inject_failure_no_send [OF child', where e = sample_env
      and meth = "''GET''" and jsonData = None and mapHeader = None and mapCookie = None
      and cbs = "[]"]
  have r: "fasthttpReq sample_env ?R None ?url ''GET'' None None None [] world0
      = (Inr (None, None, Some ''inject rejected''), Span_Finish ?cs (ReleaseRequest ?w2))"
    and n: "network_sends (snd (fasthttpReq sample_env ?R None ?url ''GET'' None None None [] world0))
      = network_sends world0"
    using rejected inj by blast+
  have "\<exists>evs. events (snd (fasthttpReq sample_env ?T None ?url ''GET'' None None None [] world0))
      = evs @ [EvFinish ?cs]"
    using sent by blast
  then have l: "last (events (snd (fasthttpReq sample_env ?T None ?url ''GET'' None None None [] world0)))
      = EvFinish ?cs"
    by auto
  have ev: "events (emit (EvFinish ?cs) (ReleaseRequest ?w2))
      = [EvStartSpan ?url [], EvAcquireRequest,
         EvInject (ExtSpanContext 0) fasthttpHeadersCodecFormat, EvReleaseRequest, EvFinish ?cs]"
    by (simp add: ReleaseRequest_def emit_def world0_def)
  have "network_sends world0 = []"
    by (simp add: network_sends_def world0_def)
  with n l show ?thesis
    by (simp add: r ev)
qed


text \<open>The exit of \<open>fasthttpReq\<close> on a failed serialization of the JSON data.\<close>

lemma fasthttpReq_marshal_failure:
  assumes "ChildSpanFromContext ti url ctx w = (Some childSpan, w1)"
    and "Inject2FasthttpHeader ti (Some childSpan) empty_RequestHeader (emit EvAcquireRequest w1)
           = ((hdr, None), w2)"
    and "jsonSerializer_Marshal e d = (b, Some err)"
  shows "fasthttpReq e ti ctx url meth (Some d) mapHeader mapCookie cbs w
           = (Inr (None, None, Some err), Span_Finish childSpan (ReleaseRequest w2))"
  using assms
  by (simp add: fasthttpReq_def fasthttpReq_build_def AcquireRequest_def
      setFasthttpReqBodyByJsonData_def)

text \<open>The exit of \<open>fasthttpReq\<close> on a failed send.\<close>

lemma fasthttpReq_send_failure:
  assumes "\<And>req h. snd (Client_DoTimeout e req h) = Some err"
  shows "fst (fasthttpReq_send e ti ctx req cbs w) = (None, None, Some err)"
proof -
  obtain resp where "Client_DoTimeout e req (events (AcquireResponse w)) = (resp, Some err)"
    using assms [of req "events (AcquireResponse w)"]
    by (cases "Client_DoTimeout e req (events (AcquireResponse w))") simp
  then show ?thesis
    by (simp add: fasthttpReq_send_def sendFasthttpReqWithTimeOut_def)
qed

lemma fasthttpReq_transport_failure:
  assumes "ChildSpanFromContext ti url ctx w = (Some childSpan, w1)"
    and "Inject2FasthttpHeader ti (Some childSpan) empty_RequestHeader (emit EvAcquireRequest w1)
           = ((hdr, None), w2)"
    and "\<And>d. jsonData = Some d \<Longrightarrow> snd (jsonSerializer_Marshal e d) = None"
    and "\<And>req h. snd (Client_DoTimeout e req h) = Some err"
  shows "fst (fasthttpReq e ti ctx url meth jsonData mapHeader mapCookie cbs w)
           = Inr (None, None, Some err)"
proof (cases jsonData)
  case None
  then show ?thesis
    using assms(1,2) fasthttpReq_send_failure [OF assms(4), of ti ctx _ cbs w2]
    by (auto simp add: fasthttpReq_def fasthttpReq_build_def AcquireRequest_def split: prod.split)
       (metis fst_conv prod.inject)+
next
  case (Some d)
  then obtain b where "jsonSerializer_Marshal e d = (b, None)"
    using assms(3) [of d] by (cases "jsonSerializer_Marshal e d") simp
  with Some show ?thesis
    using assms(1,2) fasthttpReq_send_failure [OF assms(4), of ti ctx _ cbs w2]
    by (auto simp add: fasthttpReq_def fasthttpReq_build_def AcquireRequest_def
        setFasthttpReqBodyByJsonData_def split: prod.split)
       (metis fst_conv prod.inject)+
qed

text \<open>
  C10. Let the pipeline have derived a span. Each of the four request functions
  returns the error with a nil context and a nil body when the injection fails; so do
  the three that take JSON data when the serializer rejects the data; and so do all
  four when injection and serialization succeed and the send fails. No other return
  carries an error: whenever one of them returns an error, the context and the body
  returned with it are nil, whatever the caller's context was.
\<close>

theorem fasthttp_error_results_nil:
  assumes "ChildSpanFromContext ti url ctx w = (Some childSpan, w1)"
  shows "(\<forall>hdr err w2.
            Inject2FasthttpHeader ti (Some childSpan) empty_RequestHeader (emit EvAcquireRequest w1)
              = ((hdr, Some err), w2) \<longrightarrow>
            fst (GetFasthttp e ti ctx url mapHeader mapCookie cbs w) = Inr (None, None, Some err)
            \<and> fst (PostJsonFasthttp e ti ctx url jsonData mapHeader mapCookie cbs w)
                = Inr (None, None, Some err)
            \<and> fst (PutJsonFasthttp e ti ctx url jsonData mapHeader mapCookie cbs w)
                = Inr (None, None, Some err)
            \<and> fst (DeleteJsonFasthttp e ti ctx url jsonData mapHeader mapCookie cbs w)
                = Inr (None, None, Some err))
       \<and> (\<forall>hdr w2 b err.
            Inject2FasthttpHeader ti (Some childSpan) empty_RequestHeader (emit EvAcquireRequest w1)
              = ((hdr, None), w2)
            \<and> jsonSerializer_Marshal e d = (b, Some err) \<longrightarrow>
            fst (PostJsonFasthttp e ti ctx url (Some d) mapHeader mapCookie cbs w)
                = Inr (None, None, Some err)
            \<and> fst (PutJsonFasthttp e ti ctx url (Some d) mapHeader mapCookie cbs w)
                = Inr (None, None, Some err)
            \<and> fst (DeleteJsonFasthttp e ti ctx url (Some d) mapHeader mapCookie cbs w)
                = Inr (None, None, Some err))
       \<and> (\<forall>hdr w2 err.
            Inject2FasthttpHeader ti (Some childSpan) empty_RequestHeader (emit EvAcquireRequest w1)
              = ((hdr, None), w2)
            \<and> (\<forall>v. jsonData = Some v \<longrightarrow> snd (jsonSerializer_Marshal e v) = None)
            \<and> (\<forall>req h. snd (Client_DoTimeout e req h) = Some err) \<longrightarrow>
            fst (GetFasthttp e ti ctx url mapHeader mapCookie cbs w) = Inr (None, None, Some err)
            \<and> fst (PostJsonFasthttp e ti ctx url jsonData mapHeader mapCookie cbs w)
                = Inr (None, None, Some err)
            \<and> fst (PutJsonFasthttp e ti ctx url jsonData mapHeader mapCookie cbs w)
                = Inr (None, None, Some err)
            \<and> fst (DeleteJsonFasthttp e ti ctx url jsonData mapHeader mapCookie cbs w)
                = Inr (None, None, Some err))
       \<and> (\<forall>newCtx respBody err w'.
            GetFasthttp e ti ctx url mapHeader mapCookie cbs w
              = (Inr (newCtx, respBody, Some err), w')
            \<or> PostJsonFasthttp e ti ctx url jsonData mapHeader mapCookie cbs w
              = (Inr (newCtx, respBody, Some err), w')
            \<or> PutJsonFasthttp e ti ctx url jsonData mapHeader mapCookie cbs w
              = (Inr (newCtx, respBody, Some err), w')
            \<or> DeleteJsonFasthttp e ti ctx url jsonData mapHeader mapCookie cbs w
              = (Inr (newCtx, respBody, Some err), w') \<longrightarrow>
            newCtx = None \<and> respBody = None)"
proof (intro conjI allI impI)
  fix hdr err w2
  assume inj: "Inject2FasthttpHeader ti (Some childSpan) empty_RequestHeader (emit EvAcquireRequest w1)
      = ((hdr, Some err), w2)"
  note r = fasthttpReq_inject_failure [OF assms inj]
  show "fst (GetFasthttp e ti ctx url mapHeader mapCookie cbs w) = Inr (None, None, Some err)"
    by (simp add: GetFasthttp_def r)
  show "fst (PostJsonFasthttp e ti ctx url jsonData mapHeader mapCookie cbs w)
      = Inr (None, None, Some err)"
    by (simp add: PostJsonFasthttp_def r)
  show "fst (PutJsonFasthttp e ti ctx url jsonData mapHeader mapCookie cbs w)
      = Inr (None, None, Some err)"
    by (simp add: PutJsonFasthttp_def r)
  show "fst (DeleteJsonFasthttp e ti ctx url jsonData mapHeader mapCookie cbs w)
      = Inr (None, None, Some err)"
    by (simp add: DeleteJsonFasthttp_def r)
next
  fix hdr w2 b err
  assume "Inject2FasthttpHeader ti (Some childSpan) empty_RequestHeader (emit EvAcquireRequest w1)
      = ((hdr, None), w2) \<and> jsonSerializer_Marshal e d = (b, Some err)"
  then have inj: "Inject2FasthttpHeader ti (Some childSpan) empty_RequestHeader
        (emit EvAcquireRequest w1) = ((hdr, None), w2)"
    and m: "jsonSerializer_Marshal e d = (b, Some err)"
    by simp_all
  note r = fasthttpReq_marshal_failure [OF assms inj m]
  show "fst (PostJsonFasthttp e ti ctx url (Some d) mapHeader mapCookie cbs w)
      = Inr (None, None, Some err)"
    by (simp add: PostJsonFasthttp_def r)
  show "fst (PutJsonFasthttp e ti ctx url (Some d) mapHeader mapCookie cbs w)
      = Inr (None, None, Some err)"
    by (simp add: PutJsonFasthttp_def r)
  show "fst (DeleteJsonFasthttp e ti ctx url (Some d) mapHeader mapCookie cbs w)
      = Inr (None, None, Some err)"
    by (simp add: DeleteJsonFasthttp_def r)
next
  fix hdr w2 err
  assume h: "Inject2FasthttpHeader ti (Some childSpan) empty_RequestHeader (emit EvAcquireRequest w1)
      = ((hdr, None), w2)
    \<and> (\<forall>v. jsonData = Some v \<longrightarrow> snd (jsonSerializer_Marshal e v) = None)
    \<and> (\<forall>req h. snd (Client_DoTimeout e req h) = Some err)"
  then have inj: "Inject2FasthttpHeader ti (Some childSpan) empty_RequestHeader
        (emit EvAcquireRequest w1) = ((hdr, None), w2)"
    and m: "\<And>v. jsonData = Some v \<Longrightarrow> snd (jsonSerializer_Marshal e v) = None"
    and t: "\<And>req h. snd (Client_DoTimeout e req h) = Some err"
    by simp_all
  have m0: "\<And>v. (None :: go_value option) = Some v \<Longrightarrow> snd (jsonSerializer_Marshal e v) = None"
    by simp
  show "fst (GetFasthttp e ti ctx url mapHeader mapCookie cbs w) = Inr (None, None, Some err)"
    unfolding GetFasthttp_def by (rule fasthttpReq_transport_failure [OF assms inj m0 t])
  show "fst (PostJsonFasthttp e ti ctx url jsonData mapHeader mapCookie cbs w)
      = Inr (None, None, Some err)"
    unfolding PostJsonFasthttp_def by (rule fasthttpReq_transport_failure [OF assms inj m t])
  show "fst (PutJsonFasthttp e ti ctx url jsonData mapHeader mapCookie cbs w)
      = Inr (None, None, Some err)"
    unfolding PutJsonFasthttp_def by (rule fasthttpReq_transport_failure [OF assms inj m t])
  show "fst (DeleteJsonFasthttp e ti ctx url jsonData mapHeader mapCookie cbs w)
      = Inr (None, None, Some err)"
    unfolding DeleteJsonFasthttp_def by (rule fasthttpReq_transport_failure [OF assms inj m t])
next
  fix newCtx respBody err w'
  assume "GetFasthttp e ti ctx url mapHeader mapCookie cbs w
        = (Inr (newCtx, respBody, Some err), w')
      \<or> PostJsonFasthttp e ti ctx url jsonData mapHeader mapCookie cbs w
        = (Inr (newCtx, respBody, Some err), w')
      \<or> PutJsonFasthttp e ti ctx url jsonData mapHeader mapCookie cbs w
        = (Inr (newCtx, respBody, Some err), w')
      \<or> DeleteJsonFasthttp e ti ctx url jsonData mapHeader mapCookie cbs w
        = (Inr (newCtx, respBody, Some err), w')"
  then have "newCtx = None \<and> respBody = None"
    unfolding GetFasthttp_def PostJsonFasthttp_def PutJsonFasthttp_def DeleteJsonFasthttp_def
    by (blast dest: fasthttpReq_error_nil)
  then show "newCtx = None" and "respBody = None"
    by simp_all
qed

theorem fasthttp_error_results_nil_witness:
  "fst (GetFasthttp sample_env (AllocatedImpl (ExtTracer sample_tracer)) (Some Background)
          ''http://localhost:8082/pong'' None None [] world0)
     = Inr (None, None, Some ''timeout'')
   \<and> fst (PostJsonFasthttp sample_env (AllocatedImpl (ExtTracer sample_tracer)) (Some Background)
          ''http://localhost:8082/pong'' (Some GoChan) None None [] world0)
     = Inr (None, None, Some ''unsupported type'')
   \<and> fst (PutJsonFasthttp sample_env (AllocatedImpl (ExtTracer rejecting_tracer)) (Some Background)
          ''http://localhost:8082/pong'' (Some (GoInt 1)) None None [] world0)
     = Inr (None, None, Some ''inject rejected'')
   \<and> fst (DeleteJsonFasthttp sample_env (AllocatedImpl (ExtTracer sample_tracer)) (Some Background)
          ''http://localhost:8082/pong'' (Some (GoString ''x'')) None None [] world0)
     = Inr (None, None, Some ''timeout'')"
proof -
  let ?R = "AllocatedImpl (ExtTracer rejecting_tracer)"
  let ?T = "AllocatedImpl (ExtTracer sample_tracer)"
  let ?url = "''http://localhost:8082/pong''"
  let ?cs = "ExtSpan 0 (ExtSpanContext 0)"
  let ?w1 = "emit (EvStartSpan ?url []) world0"
  let ?w2 = "emit (EvInject (ExtSpanContext 0) fasthttpHeadersCodecFormat) (emit EvAcquireRequest ?w1)"
  have childR: "ChildSpanFromContext ?R ?url (Some Background) world0 = (Some ?cs, ?w1)"
    by (simp add: ChildSpanFromContext_def spanInfoFromContext_def StartSpan_def
        rejecting_tracer_def sample_tracer_def world0_def)
  have childT: "ChildSpanFromContext ?T ?url (Some Background) world0 = (Some ?cs, ?w1)"
    by (simp add: ChildSpanFromContext_def spanInfoFromContext_def StartSpan_def
        sample_tracer_def world0_def)
  have injR: "Inject2FasthttpHeader ?R (Some ?cs) empty_RequestHeader (emit EvAcquireRequest ?w1)
      = ((empty_RequestHeader, Some ''inject rejected''), ?w2)"
    by (simp add: Inject2FasthttpHeader_def injectSpanCtx2FasthttpHeader_def
        rejecting_tracer_def sample_tracer_def)
  have injT: "Inject2FasthttpHeader ?T (Some ?cs) empty_RequestHeader (emit EvAcquireRequest ?w1)
      = ((RequestHeader_Set trace_header_name ''1'' empty_RequestHeader, None), ?w2)"
    by (simp add: Inject2FasthttpHeader_def injectSpanCtx2FasthttpHeader_def sample_tracer_def)
  have chan: "jsonSerializer_Marshal sample_env GoChan = ([], Some ''unsupported type'')"
    by (simp add: sample_env_def)
  have str: "\<forall>v. Some (GoString ''x'') = Some v \<longrightarrow> snd (jsonSerializer_Marshal sample_env v) = None"
    by (simp add: sample_env_def)
  have none: "\<forall>v. (None :: go_value option) = Some v \<longrightarrow> snd (jsonSerializer_Marshal sample_env v) = None"
    by simp
  have net: "\<forall>req h. snd (Client_DoTimeout sample_env req h) = Some ''timeout''"
    by (simp add: sample_env_def)
  have g: "fst (GetFasthttp sample_env ?T (Some Background) ?url None None [] world0)
      = Inr (None, None, Some ''timeout'')"
    using fasthttp_error_results_nil [OF childT, where e = sample_env and jsonData = None
        and mapHeader = None and mapCookie = None and cbs = "[]"] injT none net
    by blast
  have p: "fst (PostJsonFasthttp sample_env ?T (Some Background) ?url (Some GoChan) None None [] world0)
      = Inr (None, None, Some ''unsupported type'')"
    using fasthttp_error_results_nil [OF childT, where e = sample_env and d = GoChan
        and mapHeader = None and mapCookie = None and cbs = "[]"] injT chan
    by blast
  have u: "fst (PutJsonFasthttp sample_env ?R (Some Background) ?url (Some (GoInt 1)) None None [] world0)
      = Inr (None, None, Some ''inject rejected'')"
    using fasthttp_error_results_nil [OF childR, where e = sample_env
        and jsonData = "Some (GoInt 1)" and mapHeader = None and mapCookie = None and cbs = "[]"]
      injR
    by blast
  have d: "fst (DeleteJsonFasthttp sample_env ?T (Some Background) ?url (Some (GoString ''x''))
        None None [] world0)
      = Inr (None, None, Some ''timeout'')"
    using fasthttp_error_results_nil [OF childT, where e = sample_env
        and jsonData = "Some (GoString ''x'')" and mapHeader = None and mapCookie = None
        and cbs = "[]"] injT str net
    by blast
  show ?thesis
    using g p u d by simp
qed


section \<open>Properties of the inbound middleware\<close>

lemma tracker_WriteHeader_step:
  assumes "rw_WriteHeader (statusCodeTracker_writer a server_writer) code w = (p, w1)"
  shows "sct_statusCode w1 a = code
       \<and> logged_status_codes w1 = logged_status_codes w
       \<and> started_names w1 = started_names w
       \<and> (valid_code code \<longrightarrow> p = None)"
  using assms
  by (auto simp add: statusCodeTracker_writer_def statusCodeTracker_WriteHeader_def
      server_writer_def server_WriteHeader_def valid_code_def emit_def
      logged_status_codes_def started_names_def split: if_splits)

lemma tracker_Write_step:
  "sct_statusCode (rw_Write (statusCodeTracker_writer a server_writer) b w) a = sct_statusCode w a
   \<and> logged_status_codes (rw_Write (statusCodeTracker_writer a server_writer) b w)
       = logged_status_codes w
   \<and> started_names (rw_Write (statusCodeTracker_writer a server_writer) b w) = started_names w"
  by (simp add: statusCodeTracker_writer_def server_writer_def server_Write_def emit_def
      logged_status_codes_def started_names_def)

text \<open>
  A handler's calls on the tracker over the server's writer: they log nothing onto a
  span and start none; if none panics, the tracker holds the argument of the last
  \<^verbatim>\<open>WriteHeader\<close> call; and none panics when every status code is valid.
\<close>

lemma run_calls_tracker:
  assumes "run_calls cs (statusCodeTracker_writer a server_writer) w = (p, w1)"
  shows "logged_status_codes w1 = logged_status_codes w
       \<and> started_names w1 = started_names w
       \<and> (p = None \<longrightarrow> sct_statusCode w1 a = last (sct_statusCode w a # written_codes cs))
       \<and> ((\<forall>code \<in> set (written_codes cs). valid_code code) \<longrightarrow> p = None)"
  using assms
proof (induction cs arbitrary: w)
  case Nil
  then show ?case by simp
next
  case (Cons c cs)
  show ?case
  proof (cases c)
    case (CallWriteHeader code)
    obtain q w2 where step: "rw_WriteHeader (statusCodeTracker_writer a server_writer) code w = (q, w2)"
      by (cases "rw_WriteHeader (statusCodeTracker_writer a server_writer) code w")
    note s = tracker_WriteHeader_step [OF step]
    show ?thesis
    proof (cases q)
      case None
      with Cons.prems CallWriteHeader step
      have rest: "run_calls cs (statusCodeTracker_writer a server_writer) w2 = (p, w1)"
        by simp
      show ?thesis
        using Cons.IH [OF rest] s CallWriteHeader by simp
    next
      case (Some pn)
      with Cons.prems CallWriteHeader step have "p = Some pn" and "w1 = w2"
        by simp_all
      then show ?thesis
        using s CallWriteHeader Some by auto
    qed
  next
    case (CallWrite b)
    with Cons.prems
    have rest: "run_calls cs (statusCodeTracker_writer a server_writer)
        (rw_Write (statusCodeTracker_writer a server_writer) b w) = (p, w1)"
      by simp
    show ?thesis
      using Cons.IH [OF rest] tracker_Write_step [of a b w] CallWrite by simp
  qed
qed

text \<open>
  A run of the middleware over a tracer of another package that returns a span, on a
  handler that makes the calls \<open>cs\<close> on its writer.
\<close>

lemma HttpMiddleWare_run:
  assumes "ext_Extract x HTTPHeaders (HTTPHeadersCarrier (r_Header r)) (events wld) = (sco, err)"
    and "ext_StartSpan x (getOperationNameFromHttpRequest r)
           (case sco of None \<Rightarrow> [] | Some sc \<Rightarrow> [ChildOf sc])
           (events wld @ [EvExtract HTTPHeaders]) = Some (i, c)"
    and "HttpMiddleWare (AllocatedImpl (ExtTracer x)) (script_handler cs) server_writer r wld
           = (p, w')"
  shows "started_names w' = started_names wld @ [getOperationNameFromHttpRequest r]
       \<and> (p = None \<longrightarrow>
            logged_status_codes w' = logged_status_codes wld @ [last (0 # written_codes cs)])
       \<and> (p \<noteq> None \<longrightarrow> logged_status_codes w' = logged_status_codes wld)
       \<and> ((\<forall>code \<in> set (written_codes cs). valid_code code) \<longrightarrow> p = None)"
proof -
  let ?opts = "case sco of None \<Rightarrow> [] | Some sc \<Rightarrow> [ChildOf sc]"
  let ?w1 = "emit (EvStartSpan (getOperationNameFromHttpRequest r) ?opts)
      (emit (EvExtract HTTPHeaders) wld)"
  let ?a = "sct_next ?w1"
  let ?w2 = "?w1\<lparr>sct_statusCode := (sct_statusCode ?w1)(?a := 0), sct_next := Suc ?a\<rparr>"
  have child: "ChildSpanFromHttpHeader (AllocatedImpl (ExtTracer x))
      (getOperationNameFromHttpRequest r) (r_Header r) wld = (Some (ExtSpan i c), ?w1)"
    using assms(1,2)
    by (cases sco)
       (simp_all add: ChildSpanFromHttpHeader_def getSpanFromHttpHeader_def
          extractFromHttpHeader_def emit_def)
  obtain q w3 where h: "run_calls cs (statusCodeTracker_writer ?a server_writer) ?w2 = (q, w3)"
    by (cases "run_calls cs (statusCodeTracker_writer ?a server_writer) ?w2")
  note rc = run_calls_tracker [OF h]
  have w2: "logged_status_codes ?w2 = logged_status_codes wld"
    "started_names ?w2 = started_names wld @ [getOperationNameFromHttpRequest r]"
    "sct_statusCode ?w2 ?a = 0"
    by (simp_all add: logged_status_codes_def started_names_def emit_def)
  show ?thesis
  proof (cases q)
    case None
    have "(p, w') = (None, Span_Finish (ExtSpan i c)
        (Span_LogFields (ExtSpan i c)
           [logFieldHttpMiddleWareComponentName,
            LogInt logFieldKeyHttpStatusCode (sct_statusCode w3 ?a)] w3))"
      using assms(3) child h None
      by (simp add: HttpMiddleWare_def noopTracerImpl_def ContextWithSpan_def
          new_statusCodeTracker_def script_handler_def)
    then show ?thesis
      using rc w2 None
      by (simp add: logged_status_codes_def started_names_def emit_def
          logFieldHttpMiddleWareComponentName_def)
  next
    case (Some pn)
    have "(p, w') = (Some pn, w3)"
      using assms(3) child h Some
      by (simp add: HttpMiddleWare_def noopTracerImpl_def ContextWithSpan_def
          new_statusCodeTracker_def script_handler_def)
    then show ?thesis
      using rc w2 Some by auto
  qed
qed

lemma HttpMiddleWare_run_total:
  assumes "\<And>opName opts h. ext_StartSpan x opName opts h \<noteq> None"
    and "HttpMiddleWare (AllocatedImpl (ExtTracer x)) (script_handler cs) server_writer r wld
           = (p, w')"
  shows "started_names w' = started_names wld @ [getOperationNameFromHttpRequest r]
       \<and> (p = None \<longrightarrow>
            logged_status_codes w' = logged_status_codes wld @ [last (0 # written_codes cs)])
       \<and> (p \<noteq> None \<longrightarrow> logged_status_codes w' = logged_status_codes wld)
       \<and> ((\<forall>code \<in> set (written_codes cs). valid_code code) \<longrightarrow> p = None)"
proof -
  obtain sco err where
    ex: "ext_Extract x HTTPHeaders (HTTPHeadersCarrier (r_Header r)) (events wld) = (sco, err)"
    by (cases "ext_Extract x HTTPHeaders (HTTPHeadersCarrier (r_Header r)) (events wld)")
  obtain i c where
    st: "ext_StartSpan x (getOperationNameFromHttpRequest r)
           (case sco of None \<Rightarrow> [] | Some sc \<Rightarrow> [ChildOf sc])
           (events wld @ [EvExtract HTTPHeaders]) = Some (i, c)"
    using assms(1) by fastforce
  show ?thesis
    by (rule HttpMiddleWare_run [OF ex st assms(2)])
qed


text \<open>
  C4, as the code has it. The operation name is the word HTTP, a space, the request
  method, a space and the URL path. Over a tracer of another package that never
  returns a nil span, a run of the middleware starts one span, under that name,
  whatever the handler does with its writer; and the run returns when the handler
  writes valid status codes only.
\<close>

theorem middleware_operation_name:
  assumes "\<And>opName opts h. ext_StartSpan x opName opts h \<noteq> None"
  shows "getOperationNameFromHttpRequest r = ''HTTP '' @ r_Method r @ '' '' @ r_URL_Path r
       \<and> started_names
            (snd (HttpMiddleWare (AllocatedImpl (ExtTracer x)) (script_handler cs) server_writer r wld))
           = started_names wld @ [''HTTP '' @ r_Method r @ '' '' @ r_URL_Path r]
       \<and> ((\<forall>code \<in> set (written_codes cs). valid_code code) \<longrightarrow>
            fst (HttpMiddleWare (AllocatedImpl (ExtTracer x)) (script_handler cs) server_writer r wld)
              = None)"
proof -
  have name: "getOperationNameFromHttpRequest r = ''HTTP '' @ r_Method r @ '' '' @ r_URL_Path r"
    by (simp add: getOperationNameFromHttpRequest_def)
  obtain p w' where
    run: "HttpMiddleWare (AllocatedImpl (ExtTracer x)) (script_handler cs) server_writer r wld = (p, w')"
    by (cases "HttpMiddleWare (AllocatedImpl (ExtTracer x)) (script_handler cs) server_writer r wld")
  show ?thesis
    using HttpMiddleWare_run_total [OF assms run] name by (simp add: run)
qed

theorem middleware_operation_name_witness:
  "fst (HttpMiddleWare (AllocatedImpl (ExtTracer sample_tracer)) (script_handler [CallWriteHeader 200])
          server_writer ping_request world0) = None
   \<and> started_names
        (snd (HttpMiddleWare (AllocatedImpl (ExtTracer sample_tracer))
                (script_handler [CallWriteHeader 200]) server_writer ping_request world0))
      = [''HTTP GET /ping'']"
proof -
  have nn: "\<And>opName opts h. ext_StartSpan sample_tracer opName opts h \<noteq> None"
    by (simp add: sample_tracer_def)
  have "started_names world0 = []"
    by (simp add: started_names_def world0_def)
  moreover have "\<forall>code \<in> set (written_codes [CallWriteHeader 200]). valid_code code"
    by (simp add: valid_code_def)
  ultimately show ?thesis
    using middleware_operation_name [OF nn, of ping_request "[CallWriteHeader 200]" world0]
    by (simp add: ping_request_def)
qed

text \<open>
  C4 as stated fails: for a GET of /ping the operation name is not the method, a
  space and the path, and the span the middleware starts is not under that name.
\<close>

theorem middleware_operation_name_not_method_path:
  "getOperationNameFromHttpRequest ping_request
     \<noteq> r_Method ping_request @ '' '' @ r_URL_Path ping_request
   \<and> started_names
        (snd (HttpMiddleWare (AllocatedImpl (ExtTracer sample_tracer)) (script_handler [])
                server_writer ping_request world0))
     \<noteq> [''GET /ping'']"
proof -
  have nn: "\<And>opName opts h. ext_StartSpan sample_tracer opName opts h \<noteq> None"
    by (simp add: sample_tracer_def)
  obtain p w' where
    run: "HttpMiddleWare (AllocatedImpl (ExtTracer sample_tracer)) (script_handler [])
        server_writer ping_request world0 = (p, w')"
    by (cases "HttpMiddleWare (AllocatedImpl (ExtTracer sample_tracer)) (script_handler [])
        server_writer ping_request world0")
  have "started_names w' = started_names world0 @ [getOperationNameFromHttpRequest ping_request]"
    using HttpMiddleWare_run_total [OF nn run] by simp
  then have "started_names w' = [''HTTP GET /ping'']"
    by (simp add: started_names_def world0_def getOperationNameFromHttpRequest_def
        ping_request_def)
  then have "started_names
        (snd (HttpMiddleWare (AllocatedImpl (ExtTracer sample_tracer)) (script_handler [])
                server_writer ping_request world0))
     \<noteq> [''GET /ping'']"
    by (simp add: run)
  moreover have "getOperationNameFromHttpRequest ping_request
     \<noteq> r_Method ping_request @ '' '' @ r_URL_Path ping_request"
    by (simp add: getOperationNameFromHttpRequest_def ping_request_def)
  ultimately show ?thesis
    by simp
qed




text \<open>
  A handler whose first call is \<^verbatim>\<open>WriteHeader\<close> with the code 0: the tracker stores
  the code, the writer of the server panics, and the middleware neither logs the
  status code nor finishes the span it started.
\<close>

lemma middleware_invalid_code_panics:
  "HttpMiddleWare (AllocatedImpl (ExtTracer sample_tracer)) (script_handler [CallWriteHeader 0])
     server_writer ping_request world0
   = (Some (InvalidWriteHeaderCode 0),
      \<lparr>events = [EvExtract HTTPHeaders, EvStartSpan ''HTTP GET /ping'' []],
       sct_statusCode = (\<lambda>a. 0), sct_next = 1, srv_wroteHeader = False\<rparr>)"
  by (simp add: HttpMiddleWare_def noopTracerImpl_def ChildSpanFromHttpHeader_def
      getSpanFromHttpHeader_def extractFromHttpHeader_def ContextWithSpan_def
      new_statusCodeTracker_def script_handler_def statusCodeTracker_writer_def
      statusCodeTracker_WriteHeader_def server_writer_def server_WriteHeader_def
      sample_tracer_def world0_def ping_request_def getOperationNameFromHttpRequest_def
      emit_def fun_eq_iff)

end
